theory Spec2Isabelle
  imports Main "HOL-Library.List_Lexorder" "HOL-Library.Product_Lexorder"
begin


section \<open>The datetime values of the standard library\<close>

text \<open>
  \<^verbatim>\<open>app/utils.py\<close> computes with \<^verbatim>\<open>datetime.datetime\<close> values that carry a time zone.
  A value is modelled by its wall-clock fields; arithmetic with a \<^verbatim>\<open>timedelta\<close> on an
  aware value works on those fields and keeps \<^verbatim>\<open>tzinfo\<close>, as CPython does. Years are
  limited to 1..9999 (\<^verbatim>\<open>MINYEAR\<close>, \<^verbatim>\<open>MAXYEAR\<close>): a result outside raises
  \<^verbatim>\<open>OverflowError\<close>, and \<^verbatim>\<open>replace\<close> with a field out of range raises \<^verbatim>\<open>ValueError\<close>.
\<close>

datatype py_error = ValueError | OverflowError

record datetime =
  year :: nat
  month :: nat
  day :: nat
  hour :: nat
  minute :: nat
  second :: nat
  microsecond :: nat
  tzinfo :: "string option"

definition MAXYEAR :: nat where
  "MAXYEAR = 9999"

definition is_leap :: "nat \<Rightarrow> bool" where
  "is_leap y = (y mod 4 = 0 \<and> (y mod 100 \<noteq> 0 \<or> y mod 400 = 0))"

definition days_in_month :: "nat \<Rightarrow> nat \<Rightarrow> nat" where
  "days_in_month y m =
     (if m = 2 then (if is_leap y then 29 else 28)
      else if m = 4 \<or> m = 6 \<or> m = 9 \<or> m = 11 then 30 else 31)"

definition days_before_year :: "nat \<Rightarrow> nat" where
  "days_before_year y =
     (let p = y - 1 in p * 365 + p div 4 - p div 100 + p div 400)"

definition days_before_month :: "nat \<Rightarrow> nat \<Rightarrow> nat" where
  "days_before_month y m =
     [0, 31, 59, 90, 120, 151, 181, 212, 243, 273, 304, 334] ! (m - 1)
       + (if m > 2 \<and> is_leap y then 1 else 0)"

definition toordinal :: "datetime \<Rightarrow> nat" where
  "toordinal d = days_before_year (year d) + days_before_month (year d) (month d) + day d"

text \<open>\<^verbatim>\<open>datetime.weekday()\<close>: Monday is 0 and Sunday is 6.\<close>

definition weekday :: "datetime \<Rightarrow> nat" where
  "weekday d = (toordinal d + 6) mod 7"

definition valid_datetime :: "datetime \<Rightarrow> bool" where
  "valid_datetime d =
     (1 \<le> year d \<and> year d \<le> MAXYEAR \<and> 1 \<le> month d \<and> month d \<le> 12
      \<and> 1 \<le> day d \<and> day d \<le> days_in_month (year d) (month d)
      \<and> hour d < 24 \<and> minute d < 60 \<and> second d < 60 \<and> microsecond d < 1000000)"

text \<open>
  Adding \<^verbatim>\<open>timedelta(days=k)\<close> with \<open>k \<ge> 0\<close> moves the date \<open>k\<close> calendar days forward and
  leaves the time of day and the zone alone.
\<close>

definition next_day :: "datetime \<Rightarrow> datetime" where
  "next_day d =
     (if day d < days_in_month (year d) (month d) then d\<lparr>day := day d + 1\<rparr>
      else if month d < 12 then d\<lparr>month := month d + 1, day := 1\<rparr>
      else d\<lparr>year := year d + 1, month := 1, day := 1\<rparr>)"

definition add_days :: "datetime \<Rightarrow> nat \<Rightarrow> py_error + datetime" where
  "add_days d k =
     (let r = (next_day ^^ k) d in if year r > MAXYEAR then Inl OverflowError else Inr r)"

definition prev_day :: "datetime \<Rightarrow> py_error + datetime" where
  "prev_day d =
     (if day d > 1 then Inr (d\<lparr>day := day d - 1\<rparr>)
      else if month d > 1
        then Inr (d\<lparr>month := month d - 1, day := days_in_month (year d) (month d - 1)\<rparr>)
      else if year d > 1 then Inr (d\<lparr>year := year d - 1, month := 12, day := 31\<rparr>)
      else Inl OverflowError)"

text \<open>Subtracting \<^verbatim>\<open>timedelta(minutes=1)\<close>.\<close>

definition sub_minute :: "datetime \<Rightarrow> py_error + datetime" where
  "sub_minute d =
     (if minute d > 0 then Inr (d\<lparr>minute := minute d - 1\<rparr>)
      else if hour d > 0 then Inr (d\<lparr>hour := hour d - 1, minute := 59\<rparr>)
      else (case prev_day d of
              Inl e \<Rightarrow> Inl e
            | Inr p \<Rightarrow> Inr (p\<lparr>hour := 23, minute := 59\<rparr>)))"

text \<open>The calendar part of validity, which \<open>next_day\<close> preserves without the year limit.\<close>

definition valid_date :: "datetime \<Rightarrow> bool" where
  "valid_date d = (1 \<le> year d \<and> 1 \<le> month d \<and> month d \<le> 12
      \<and> 1 \<le> day d \<and> day d \<le> days_in_month (year d) (month d))"

text \<open>
  The ordinal of the Monday that opens the week of a date: two dates lie in the same
  Monday-to-Sunday week exactly when these agree.
\<close>

definition week_start :: "datetime \<Rightarrow> nat" where
  "week_start d = toordinal d - weekday d"

section \<open>\<^verbatim>\<open>app/utils.py\<close>\<close>

definition end_of_week :: "datetime \<Rightarrow> py_error + datetime" where
  "end_of_week base =
     (let days_ahead = 6 - weekday base in
      case add_days base days_ahead of
        Inl e \<Rightarrow> Inl e
      | Inr e \<Rightarrow> Inr (e\<lparr>hour := 23, minute := 59, second := 0, microsecond := 0\<rparr>))"

definition end_of_month :: "datetime \<Rightarrow> py_error + datetime" where
  "end_of_month base =
     (let next_month =
        (if month base = 12
         then (if year base + 1 > MAXYEAR then Inl ValueError
               else Inr (base\<lparr>year := year base + 1, month := 1, day := 1\<rparr>))
         else Inr (base\<lparr>month := month base + 1, day := 1\<rparr>))
      in case next_month of
           Inl e \<Rightarrow> Inl e
         | Inr nm \<Rightarrow>
             (case sub_minute nm of
                Inl e \<Rightarrow> Inl e
              | Inr e \<Rightarrow> Inr (e\<lparr>second := 0, microsecond := 0\<rparr>)))"

section \<open>Python strings\<close>

text \<open>
  A Python \<^verbatim>\<open>str\<close> is a sequence of Unicode code points, so a string is a list of
  natural numbers and \<open>length\<close> counts what \<^verbatim>\<open>len\<close> counts. \<open>asc\<close> reads an ASCII
  literal; the Turkish letters of the source's word lists are named by their code points.
\<close>

type_synonym ustr = "nat list"

definition asc :: "string \<Rightarrow> ustr" where
  "asc s = map of_char s"

abbreviation c_cedilla :: nat where "c_cedilla \<equiv> 231"
abbreviation g_breve :: nat where "g_breve \<equiv> 287"
abbreviation dotless_i :: nat where "dotless_i \<equiv> 305"
abbreviation o_diaeresis :: nat where "o_diaeresis \<equiv> 246"
abbreviation s_cedilla :: nat where "s_cedilla \<equiv> 351"
abbreviation u_diaeresis :: nat where "u_diaeresis \<equiv> 252"
abbreviation C_cedilla :: nat where "C_cedilla \<equiv> 199"
abbreviation G_breve :: nat where "G_breve \<equiv> 286"
abbreviation I_dotted :: nat where "I_dotted \<equiv> 304"
abbreviation O_diaeresis :: nat where "O_diaeresis \<equiv> 214"
abbreviation S_cedilla :: nat where "S_cedilla \<equiv> 350"
abbreviation U_diaeresis :: nat where "U_diaeresis \<equiv> 220"

text \<open>
  What the program takes from outside its own code: the Unicode tables behind
  \<^verbatim>\<open>str.isspace\<close> (also \<^verbatim>\<open>\s\<close> and \<^verbatim>\<open>str.strip\<close>), \<^verbatim>\<open>\w\<close>, the decimal value of a
  \<^verbatim>\<open>\d\<close> character, \<^verbatim>\<open>str.lower\<close>, \<^verbatim>\<open>str.capitalize\<close> and the letter matching of
  \<^verbatim>\<open>re.IGNORECASE\<close>; \<^verbatim>\<open>dateparser.search.search_dates\<close> with the settings of
  \<^verbatim>\<open>parse_task_text\<close> (a missing result is the empty list);
  \<^verbatim>\<open>dt.astimezone(ZoneInfo("UTC")).isoformat()\<close> for an aware \<open>dt\<close>; and the configured
  \<^verbatim>\<open>CONFIG.timezone\<close>. Every function below takes them as the parameter \<open>L\<close>.
\<close>

record pylib =
  isspace :: "nat \<Rightarrow> bool"
  isword :: "nat \<Rightarrow> bool"
  decimal :: "nat \<Rightarrow> nat option"
  lower :: "ustr \<Rightarrow> ustr"
  capitalize :: "ustr \<Rightarrow> ustr"
  ieq :: "nat \<Rightarrow> nat \<Rightarrow> bool"
  search_dates :: "ustr \<Rightarrow> datetime \<Rightarrow> (ustr \<times> datetime) list"
  utc_isoformat :: "datetime \<Rightarrow> ustr"
  timezone :: string

text \<open>\<^verbatim>\<open>s.startswith(p)\<close>, \<^verbatim>\<open>s.endswith(p)\<close> and the substring test \<^verbatim>\<open>p in s\<close>.\<close>

definition startswith :: "ustr \<Rightarrow> ustr \<Rightarrow> bool" where
  "startswith p s = (take (length p) s = p)"

definition endswith :: "ustr \<Rightarrow> ustr \<Rightarrow> bool" where
  "endswith p s = (length p \<le> length s \<and> drop (length s - length p) s = p)"

fun str_in :: "ustr \<Rightarrow> ustr \<Rightarrow> bool" where
  "str_in p [] = (p = [])"
| "str_in p (c # cs) = (startswith p (c # cs) \<or> str_in p cs)"

text \<open>\<^verbatim>\<open>any(word in lowered for word in words)\<close>.\<close>

definition any_in :: "ustr list \<Rightarrow> ustr \<Rightarrow> bool" where
  "any_in words lowered = list_ex (\<lambda>word. str_in word lowered) words"

text \<open>\<^verbatim>\<open>s.strip()\<close>.\<close>

definition strip :: "pylib \<Rightarrow> ustr \<Rightarrow> ustr" where
  "strip L s = rev (dropWhile (isspace L) (rev (dropWhile (isspace L) s)))"

text \<open>
  \<^verbatim>\<open>s.replace(old, new)\<close>: the occurrences of \<open>old\<close> are taken from the left and do not
  overlap; an empty \<open>old\<close> matches before every character and at the end.
\<close>

function replace_from :: "ustr \<Rightarrow> ustr \<Rightarrow> ustr \<Rightarrow> ustr" where
  "replace_from old new [] = []"
| "replace_from old new (c # cs) =
     (if old \<noteq> [] \<and> startswith old (c # cs)
      then new @ replace_from old new (drop (length old) (c # cs))
      else c # replace_from old new cs)"
  by pat_completeness auto
termination
  by (relation "measure (\<lambda>(old, new, s). length s)") auto

definition replace :: "ustr \<Rightarrow> ustr \<Rightarrow> ustr \<Rightarrow> ustr" where
  "replace old new s =
     (if old = [] then new @ concat (map (\<lambda>c. c # new) s) else replace_from old new s)"

text \<open>
  \<^verbatim>\<open>int(s)\<close> for a string: surrounding whitespace is dropped, one sign is allowed, and what
  remains must be decimal digits, single underscores allowed between digits; anything else
  raises \<^verbatim>\<open>ValueError\<close>. The length limit that recent interpreters put on the digit
  string is not modelled.
\<close>

fun digits_value :: "pylib \<Rightarrow> int \<Rightarrow> ustr \<Rightarrow> py_error + int" where
  "digits_value L acc [] = Inr acc"
| "digits_value L acc (c # cs) =
     (case decimal L c of
        Some v \<Rightarrow> digits_value L (10 * acc + int v) cs
      | None \<Rightarrow>
          (if c = 95 \<and> cs \<noteq> [] \<and> decimal L (hd cs) \<noteq> None then digits_value L acc cs
           else Inl ValueError))"

definition py_int :: "pylib \<Rightarrow> ustr \<Rightarrow> py_error + int" where
  "py_int L s =
     (let t = strip L s;
          neg = (t \<noteq> [] \<and> hd t = 45);
          body = (if t \<noteq> [] \<and> (hd t = 45 \<or> hd t = 43) then tl t else t)
      in if body = [] \<or> decimal L (hd body) = None then Inl ValueError
         else (case digits_value L 0 body of
                 Inl e \<Rightarrow> Inl e
               | Inr v \<Rightarrow> Inr (if neg then - v else v)))"

section \<open>The regular expressions of the source\<close>

text \<open>
  Each pattern the program uses is modelled by a function that follows the matching order
  of \<^verbatim>\<open>re\<close>: leftmost match first, alternatives in the order written, greedy repetition,
  and for \<^verbatim>\<open>re.sub\<close> the next search starting where the previous match ended.
\<close>

subsection \<open>\<^verbatim>\<open>\b(w1|...|wn)\b\<close>\<close>

text \<open>
  \<^verbatim>\<open>\b\<close> holds between two positions when exactly one of the neighbouring characters is a
  \<^verbatim>\<open>\w\<close> character; the outside of the string counts as not \<^verbatim>\<open>\w\<close>.
\<close>

definition nth_opt :: "ustr \<Rightarrow> nat \<Rightarrow> nat option" where
  "nth_opt s n = (if n < length s then Some (s ! n) else None)"

definition is_w :: "pylib \<Rightarrow> nat option \<Rightarrow> bool" where
  "is_w L c = (case c of None \<Rightarrow> False | Some x \<Rightarrow> isword L x)"

definition wb :: "pylib \<Rightarrow> nat option \<Rightarrow> nat option \<Rightarrow> bool" where
  "wb L prev nxt = (is_w L prev \<noteq> is_w L nxt)"

text \<open>
  The word matched at the head of \<open>s\<close>, if any: \<open>prev\<close> is the character before \<open>s\<close> in
  the searched string, \<open>eq\<close> compares a pattern letter with a text letter (equality, or
  \<open>ieq L\<close> under \<^verbatim>\<open>re.IGNORECASE\<close>).
\<close>

definition match_word ::
  "pylib \<Rightarrow> (nat \<Rightarrow> nat \<Rightarrow> bool) \<Rightarrow> ustr list \<Rightarrow> nat option \<Rightarrow> ustr \<Rightarrow> ustr option" where
  "match_word L eq ws prev s =
     (if wb L prev (nth_opt s 0)
      then find (\<lambda>w. w \<noteq> [] \<and> length w \<le> length s \<and> list_all2 eq w (take (length w) s)
                     \<and> wb L (nth_opt s (length w - 1)) (nth_opt s (length w))) ws
      else None)"

function re_sub_words ::
  "pylib \<Rightarrow> (nat \<Rightarrow> nat \<Rightarrow> bool) \<Rightarrow> ustr list \<Rightarrow> ustr \<Rightarrow> nat option \<Rightarrow> ustr \<Rightarrow> ustr" where
  "re_sub_words L eq ws repl prev [] = []"
| "re_sub_words L eq ws repl prev (c # cs) =
     (case match_word L eq ws prev (c # cs) of
        None \<Rightarrow> c # re_sub_words L eq ws repl (Some c) cs
      | Some w \<Rightarrow>
          (if w = [] then c # re_sub_words L eq ws repl (Some c) cs
           else repl @ re_sub_words L eq ws repl (nth_opt (c # cs) (length w - 1))
                         (drop (length w) (c # cs))))"
  by pat_completeness auto
termination
  by (relation "measure (\<lambda>(L, eq, ws, repl, prev, s). length s)") auto

subsection \<open>\<^verbatim>\<open>re.sub(r"\s+", " ", s)\<close>\<close>

function re_sub_spaces :: "pylib \<Rightarrow> ustr \<Rightarrow> ustr" where
  "re_sub_spaces L [] = []"
| "re_sub_spaces L (c # cs) =
     (if isspace L c then 32 # re_sub_spaces L (dropWhile (isspace L) cs)
      else c # re_sub_spaces L cs)"
  by pat_completeness auto
termination
  by (relation "measure (\<lambda>(L, s). length s)") (auto simp add: length_dropWhile_le le_imp_less_Suc)

subsection \<open>\<^verbatim>\<open>r"#?\\d+"\<close> and \<^verbatim>\<open>r"#?(\\d+)"\<close>\<close>

text \<open>
  In a raw string \<^verbatim>\<open>\\\<close> is the regular expression for one backslash, so these patterns
  read: an optional \<^verbatim>\<open>#\<close>, a backslash, and one or more letters \<^verbatim>\<open>d\<close>. The match at the head
  of \<open>s\<close> is returned as the pair of the text of group 1 and the length of the whole match.
\<close>

definition match_hash_backslash_d :: "ustr \<Rightarrow> (ustr \<times> nat) option" where
  "match_hash_backslash_d s =
     (if startswith [35, 92, 100] s
      then (let ds = takeWhile (\<lambda>c. c = 100) (drop 2 s) in Some (92 # ds, 2 + length ds))
      else if startswith [92, 100] s
      then (let ds = takeWhile (\<lambda>c. c = 100) (drop 1 s) in Some (92 # ds, 1 + length ds))
      else None)"

fun re_search_id :: "ustr \<Rightarrow> ustr option" where
  "re_search_id [] = None"
| "re_search_id (c # cs) =
     (case match_hash_backslash_d (c # cs) of
        Some (g, n) \<Rightarrow> Some g
      | None \<Rightarrow> re_search_id cs)"

function re_sub_id :: "ustr \<Rightarrow> ustr \<Rightarrow> ustr" where
  "re_sub_id repl [] = []"
| "re_sub_id repl (c # cs) =
     (case match_hash_backslash_d (c # cs) of
        None \<Rightarrow> c # re_sub_id repl cs
      | Some (g, n) \<Rightarrow>
          (if n = 0 then c # re_sub_id repl cs else repl @ re_sub_id repl (drop n (c # cs))))"
  by pat_completeness auto
termination
  by (relation "measure (\<lambda>(repl, s). length s)") auto

subsection \<open>\<^verbatim>\<open>r"(20\\d{2})"\<close>\<close>

text \<open>The literal text \<^verbatim>\<open>20\dd\<close>: the digits 2 and 0, a backslash and two letters \<^verbatim>\<open>d\<close>.\<close>

fun re_search_year :: "ustr \<Rightarrow> ustr option" where
  "re_search_year [] = None"
| "re_search_year (c # cs) =
     (if startswith [50, 48, 92, 100, 100] (c # cs) then Some [50, 48, 92, 100, 100]
      else re_search_year cs)"

subsection \<open>\<^verbatim>\<open>re.split(r"[^\\w\<dots>]+", s)\<close>\<close>

text \<open>
  Inside the character class \<^verbatim>\<open>\\\<close> is a backslash and \<^verbatim>\<open>w\<close> is the letter w: the class
  excludes the backslash, the letter w and the twelve Turkish letters listed, and every
  other character separates.
\<close>

definition token_sep :: "nat \<Rightarrow> bool" where
  "token_sep c = (c \<notin> set [92, 119, c_cedilla, g_breve, dotless_i, o_diaeresis, s_cedilla,
     u_diaeresis, C_cedilla, G_breve, I_dotted, O_diaeresis, S_cedilla, U_diaeresis])"

fun re_split :: "(nat \<Rightarrow> bool) \<Rightarrow> ustr \<Rightarrow> ustr list" where
  "re_split sep [] = [[]]"
| "re_split sep (c # cs) =
     (if sep c then (if cs \<noteq> [] \<and> sep (hd cs) then re_split sep cs else [] # re_split sep cs)
      else (case re_split sep cs of
              [] \<Rightarrow> [[c]]
            | t # ts \<Rightarrow> (c # t) # ts))"

subsection \<open>\<^verbatim>\<open>r"(\d+)\s*(dakika|dk|saat|g\<dots>n|gun)"\<close>\<close>






section \<open>\<^verbatim>\<open>app/utils.py\<close>: \<open>to_utc_iso\<close>\<close>

definition to_utc_iso :: "pylib \<Rightarrow> datetime \<Rightarrow> ustr" where
  "to_utc_iso L dt =
     utc_isoformat L (if tzinfo dt = None then dt\<lparr>tzinfo := Some (timezone L)\<rparr> else dt)"

section \<open>\<^verbatim>\<open>app/task_parser.py\<close>\<close>

definition TASK_KEYWORDS :: "ustr list" where
  "TASK_KEYWORDS =
     [asc ''hat'' @ [dotless_i] @ asc ''rlat'', asc ''hatirlat'',
      asc ''toplant'' @ [dotless_i], asc ''toplanti'', asc ''deadline'', asc ''bitir'',
      asc ''yap'', [103, o_diaeresis] @ asc ''rev'', asc ''gorev'',
      [o_diaeresis] @ asc ''dev'', asc ''odev'', asc ''tez'', asc ''thesis'',
      asc ''proposal'', asc ''sunum'', asc ''makale'', asc ''okuma'', asc ''okumak'']"

definition filler_words :: "ustr list" where
  "filler_words =
     [asc ''hat'' @ [dotless_i] @ asc ''rlat'', asc ''hatirlat'',
      [108, u_diaeresis] @ asc ''tfen'', asc ''lutfen'']"

definition strip_filler :: "pylib \<Rightarrow> ustr \<Rightarrow> ustr" where
  "strip_filler L text =
     (let cleaned = re_sub_words L (ieq L) filler_words [] None text
      in strip L (re_sub_spaces L cleaned))"

definition parse_task_text ::
  "pylib \<Rightarrow> ustr \<Rightarrow> datetime \<Rightarrow> py_error + (ustr \<times> datetime option)" where
  "parse_task_text L text now =
     (let found = search_dates L text now;
          (found_due, cleaned) =
            (if found \<noteq> []
             then (let (phrase, dt) = last found;
                       dt = (if tzinfo dt = None then dt\<lparr>tzinfo := Some (timezone L)\<rparr> else dt)
                   in (Some dt, strip L (replace phrase (asc '' '') text)))
             else (None, text));
          lowered = lower L text;
          due =
            (if found_due = None
             then (if str_in (asc ''bu hafta'') lowered \<or> str_in (asc ''this week'') lowered
                   then map_sum id Some (end_of_week now)
                   else if str_in (asc ''bu ay'') lowered \<or> str_in (asc ''this month'') lowered
                   then map_sum id Some (end_of_month now)
                   else Inr None)
             else Inr found_due);
          title = (if cleaned \<noteq> [] then strip_filler L cleaned else strip L text)
      in case due of
           Inl e \<Rightarrow> Inl e
         | Inr d \<Rightarrow> Inr (title, d))"

definition looks_like_task :: "pylib \<Rightarrow> ustr \<Rightarrow> bool" where
  "looks_like_task L text = any_in TASK_KEYWORDS (lower L text)"


section \<open>The database tables of \<^verbatim>\<open>app/db.py\<close>\<close>

text \<open>
  A table is the list of its rows in rowid order. An \<^verbatim>\<open>AUTOINCREMENT\<close> key is one more
  than the largest rowid the table ever held, which the \<open>_seq\<close> fields remember. Text
  columns compare code point by code point, as the default collation does. Where a query
  leaves the order of equal rows open, the model keeps them in rowid order.
\<close>

record task =
  task_id :: int
  title :: ustr
  due_at :: "ustr option"
  created_at :: ustr
  status :: ustr
  source :: "ustr option"
  reminded_at :: "ustr option"
  task_notes :: "ustr option"

record pending_task =
  pending_id :: int
  chat_id :: ustr
  pending_title :: ustr
  pending_created_at :: ustr

record goal =
  goal_id :: int
  goal_title :: ustr
  goal_year :: int
  goal_status :: ustr
  progress :: int
  goal_created_at :: ustr

record db =
  tasks :: "task list"
  tasks_seq :: int
  pending_tasks :: "pending_task list"
  pending_tasks_seq :: int
  goals :: "goal list"
  goals_seq :: int

definition next_rowid :: "int \<Rightarrow> int list \<Rightarrow> int" where
  "next_rowid seq ids = fold max ids seq + 1"

text \<open>A stable sort into descending key order.\<close>

definition sort_key_desc :: "('a \<Rightarrow> 'k::linorder) \<Rightarrow> 'a list \<Rightarrow> 'a list" where
  "sort_key_desc f xs = rev (sort_key f (rev xs))"

section \<open>\<^verbatim>\<open>app/services/goal_service.py\<close>\<close>

definition create_goal :: "pylib \<Rightarrow> db \<Rightarrow> ustr \<Rightarrow> int \<Rightarrow> datetime \<Rightarrow> db \<times> int" where
  "create_goal L st ttl yr clock =
     (let created = to_utc_iso L clock;
          new_id = next_rowid (goals_seq st) (map goal_id (goals st))
      in (st\<lparr>goals := goals st @ [\<lparr>goal_id = new_id, goal_title = ttl, goal_year = yr,
                goal_status = asc ''active'', progress = 0, goal_created_at = created\<rparr>],
             goals_seq := new_id\<rparr>, new_id))"

section \<open>\<^verbatim>\<open>app/services/task_service.py\<close>\<close>

text \<open>
  \<open>create_task\<close> reads the clock itself (\<^verbatim>\<open>now_local()\<close>); the reading is the argument
  \<open>clock\<close>.
\<close>

definition create_task ::
  "pylib \<Rightarrow> db \<Rightarrow> ustr \<Rightarrow> datetime option \<Rightarrow> ustr \<Rightarrow> datetime \<Rightarrow> db \<times> int" where
  "create_task L st ttl due src clock =
     (let due_value = map_option (to_utc_iso L) due;
          created = to_utc_iso L clock;
          new_id = next_rowid (tasks_seq st) (map task_id (tasks st))
      in (st\<lparr>tasks := tasks st @ [\<lparr>task_id = new_id, title = ttl, due_at = due_value,
                created_at = created, status = asc ''pending'', source = Some src,
                reminded_at = None, task_notes = None\<rparr>],
             tasks_seq := new_id\<rparr>, new_id))"

text \<open>
  \<^verbatim>\<open>SELECT * FROM tasks WHERE status = ? ORDER BY due_at IS NULL, due_at ASC,
  created_at DESC LIMIT ?\<close>
\<close>

definition list_tasks :: "db \<Rightarrow> ustr \<Rightarrow> nat \<Rightarrow> task list" where
  "list_tasks st stat limit =
     (let rows = filter (\<lambda>t. status t = stat) (tasks st);
          by_created = sort_key_desc created_at rows;
          ordered = sort_key (\<lambda>t. (due_at t = None, case due_at t of None \<Rightarrow> [] | Some d \<Rightarrow> d))
                      by_created
      in take limit ordered)"

definition add_pending_task :: "db \<Rightarrow> ustr \<Rightarrow> ustr \<Rightarrow> ustr \<Rightarrow> db \<times> int" where
  "add_pending_task st chat ttl created_at_iso =
     (let new_id = next_rowid (pending_tasks_seq st) (map pending_id (pending_tasks st))
      in (st\<lparr>pending_tasks := pending_tasks st @ [\<lparr>pending_id = new_id, chat_id = chat,
                pending_title = ttl, pending_created_at = created_at_iso\<rparr>],
             pending_tasks_seq := new_id\<rparr>, new_id))"

text \<open>
  \<^verbatim>\<open>SELECT * FROM pending_tasks WHERE chat_id = ? ORDER BY created_at DESC LIMIT 1\<close>
\<close>

definition get_pending_task :: "db \<Rightarrow> ustr \<Rightarrow> pending_task option" where
  "get_pending_task st chat =
     (case sort_key_desc pending_created_at (filter (\<lambda>p. chat_id p = chat) (pending_tasks st)) of
        [] \<Rightarrow> None
      | row # _ \<Rightarrow> Some row)"

definition clear_pending_task :: "db \<Rightarrow> int \<Rightarrow> db" where
  "clear_pending_task st pid =
     st\<lparr>pending_tasks := filter (\<lambda>p. pending_id p \<noteq> pid) (pending_tasks st)\<rparr>"

definition get_task :: "db \<Rightarrow> int \<Rightarrow> task option" where
  "get_task st tid = find (\<lambda>t. task_id t = tid) (tasks st)"

section \<open>\<^verbatim>\<open>app/services/telegram_bot.py\<close>\<close>

definition normalize_task_title :: "pylib \<Rightarrow> ustr \<Rightarrow> ustr" where
  "normalize_task_title L ttl =
     (let text = strip L ttl in
      if text = [] then [71, o_diaeresis] @ asc ''rev.''
      else
        (let lowered = lower L text;
             lowered = re_sub_words L (=)
               [asc ''bana'', asc ''beni'', asc ''bize'', asc ''bizim'',
                [108, u_diaeresis] @ asc ''tfen'', asc ''lutfen'',
                asc ''hat'' @ [dotless_i] @ asc ''rlat'', asc ''hatirlat'']
               (asc '' '') None lowered;
             lowered = re_sub_words L (=)
               [[s_cedilla] @ asc ''unu'', [s_cedilla] @ asc ''u'', asc ''bunu'', asc ''bana'',
                asc ''beni'', asc ''hat'' @ [dotless_i] @ asc ''rlatma'', asc ''hatirlatma'',
                [103, o_diaeresis] @ asc ''rev'', [103, o_diaeresis] @ asc ''revi'']
               (asc '' '') None lowered;
             lowered = strip L (re_sub_spaces L lowered);
             replacements =
               [(asc ''yapaca'' @ [g_breve, dotless_i, 109, dotless_i],
                   asc ''yap'' @ [dotless_i] @ asc ''lacak''),
                (asc ''yapaca'' @ [g_breve, dotless_i, 109],
                   asc ''yap'' @ [dotless_i] @ asc ''lacak''),
                (asc ''gidece'' @ [g_breve] @ asc ''imi'', asc ''gidilecek''),
                (asc ''gidece'' @ [g_breve] @ asc ''im'', asc ''gidilecek''),
                (asc ''tamamlayaca'' @ [g_breve, dotless_i, 109, dotless_i], asc ''tamamlanacak''),
                (asc ''tamamlayaca'' @ [g_breve, dotless_i, 109], asc ''tamamlanacak''),
                (asc ''haz'' @ [dotless_i] @ asc ''rlayaca'' @ [g_breve, dotless_i, 109, dotless_i],
                   asc ''haz'' @ [dotless_i] @ asc ''rlanacak''),
                (asc ''haz'' @ [dotless_i] @ asc ''rlayaca'' @ [g_breve, dotless_i, 109],
                   asc ''haz'' @ [dotless_i] @ asc ''rlanacak''),
                ([103, o_diaeresis] @ asc ''nderece'' @ [g_breve] @ asc ''imi'',
                   [103, o_diaeresis] @ asc ''nderilecek''),
                ([103, o_diaeresis] @ asc ''nderece'' @ [g_breve] @ asc ''im'',
                   [103, o_diaeresis] @ asc ''nderilecek'')];
             lowered = fold (\<lambda>(src, dst) acc. replace src dst acc) replacements lowered;
             lowered =
               (if endswith (asc ''yapmak'') lowered
                then strip L (take (length lowered - length (asc ''yapmak'')) lowered)
                       @ asc '' yap'' @ [dotless_i] @ asc ''lacak''
                else lowered);
             lowered =
               (if endswith (asc ''gitmek'') lowered
                then strip L (take (length lowered - length (asc ''gitmek'')) lowered)
                       @ asc '' gidilecek''
                else lowered);
             cleaned = capitalize L (strip L lowered)
         in if cleaned \<noteq> [] \<and> last cleaned \<notin> set (asc ''.!?'') then cleaned @ asc ''.''
            else cleaned))"

definition tokenize :: "pylib \<Rightarrow> ustr \<Rightarrow> ustr set" where
  "tokenize L text = set (filter (\<lambda>token. length token > 2) (re_split token_sep (lower L text)))"

definition extract_action_query :: "pylib \<Rightarrow> ustr \<Rightarrow> ustr list \<Rightarrow> ustr" where
  "extract_action_query L text action_words =
     (let cleaned = lower L text;
          cleaned = fold (\<lambda>word acc. replace word (asc '' '') acc) action_words cleaned;
          cleaned = re_sub_words L (=)
            [[s_cedilla] @ asc ''u'', asc ''bunu'', [s_cedilla] @ asc ''unu'', asc ''bu'',
             asc ''o'', asc ''hat'' @ [dotless_i] @ asc ''rlatma'', asc ''hatirlatma'',
             [103, o_diaeresis] @ asc ''rev'', [103, o_diaeresis] @ asc ''revi'',
             asc ''hat'' @ [dotless_i] @ asc ''rlatmay'' @ [dotless_i], asc ''hatirlatmayi'']
            (asc '' '') None cleaned;
          cleaned = re_sub_id (asc '' '') cleaned
      in strip L (re_sub_spaces L cleaned))"

text \<open>\<^verbatim>\<open>xs[:limit]\<close> for an integer \<open>limit\<close>: a negative one counts from the end.\<close>

definition slice_to :: "'a list \<Rightarrow> int \<Rightarrow> 'a list" where
  "slice_to xs limit =
     (if 0 \<le> limit then take (nat limit) xs else take (length xs - nat (- limit)) xs)"

definition score_task :: "pylib \<Rightarrow> ustr \<Rightarrow> ustr set \<Rightarrow> task \<Rightarrow> nat" where
  "score_task L query query_tokens t =
     (let ttl = lower L (title t);
          score = (if str_in query ttl then 3 else 0);
          title_tokens = tokenize L ttl
      in score + card (query_tokens \<inter> title_tokens))"

definition find_task_candidates :: "pylib \<Rightarrow> db \<Rightarrow> ustr \<Rightarrow> int \<Rightarrow> task list" where
  "find_task_candidates L st query limit =
     (let open_tasks = list_tasks st (asc ''pending'') 50 in
      if open_tasks = [] then []
      else if query = [] then slice_to open_tasks limit
      else
        (let query_tokens = tokenize L query;
             scored = filter (\<lambda>(score, t). score > 0)
                        (map (\<lambda>t. (score_task L query query_tokens t, t)) open_tasks);
             scored = sort_key (\<lambda>(score, t). (- int score, due_at t = None)) scored
         in map snd (slice_to scored limit)))"

text \<open>
  What the handler sends back. The texts and keyboards of the source are reduced to the
  kind of reply and the data it shows; the summary and template texts are not modelled.
\<close>

datatype action = Delete | Done

datatype reply =
    AskDateAgain
  | Saved ustr datetime
  | Summary
  | Templates
  | TaskNotFound
  | Confirm action int ustr
  | NoMatch
  | Choose action "task list"
  | AskWhen
  | TaskList "task list"
  | GoalAdded
  | Greeting
  | Thanks
  | Identity
  | Fallback

definition send_task_selection :: "task list \<Rightarrow> action \<Rightarrow> reply" where
  "send_task_selection candidates act =
     (if candidates = [] then NoMatch else Choose act candidates)"

definition send_delete_confirmation :: "db \<Rightarrow> int \<Rightarrow> reply" where
  "send_delete_confirmation st tid =
     (case get_task st tid of None \<Rightarrow> TaskNotFound | Some t \<Rightarrow> Confirm Delete tid (title t))"

definition send_done_confirmation :: "db \<Rightarrow> int \<Rightarrow> reply" where
  "send_done_confirmation st tid =
     (case get_task st tid of None \<Rightarrow> TaskNotFound | Some t \<Rightarrow> Confirm Done tid (title t))"

definition is_summary_request :: "pylib \<Rightarrow> ustr \<Rightarrow> bool" where
  "is_summary_request L text =
     any_in [[o_diaeresis] @ asc ''zet'', asc ''ozet'', asc ''summary'', asc ''rapor'',
             asc ''durum''] (lower L text)"

definition delete_words :: "ustr list" where
  "delete_words = [asc ''sil'', asc ''kald'' @ [dotless_i] @ asc ''r'', asc ''iptal et'',
     asc ''silmek'']"

definition is_delete_request :: "pylib \<Rightarrow> ustr \<Rightarrow> bool" where
  "is_delete_request L text = any_in delete_words (lower L text)"

definition is_complete_request :: "pylib \<Rightarrow> ustr \<Rightarrow> bool" where
  "is_complete_request L text =
     any_in [asc ''tamamland'' @ [dotless_i], asc ''tamamlad'' @ [dotless_i] @ asc ''m'',
             asc ''tamamla'', asc ''bitirdim'', asc ''bitti''] (lower L text)"

text \<open>
  The conditions that \<open>handle_message\<close> tests inline on the lower-cased text, and its
  last replies (greeting, thanks, self-description, and the generic fallback).
\<close>

definition template_request :: "ustr \<Rightarrow> bool" where
  "template_request lowered =
     (str_in ([s_cedilla] @ asc ''ablon'') lowered \<or> str_in (asc ''template'') lowered
      \<or> str_in ([o_diaeresis] @ asc ''rnek'') lowered)"

definition list_request :: "ustr \<Rightarrow> bool" where
  "list_request lowered =
     (str_in (asc ''listele'') lowered \<or> str_in ([103, o_diaeresis] @ asc ''rev'') lowered
      \<or> str_in (asc ''liste'') lowered)"

definition greeting_words :: "ustr list" where
  "greeting_words =
     [asc ''merhaba'', asc ''selam'', asc ''naber'',
      asc ''nas'' @ [dotless_i] @ asc ''ls'' @ [dotless_i] @ asc ''n'', asc ''nasilsin'']"

definition thanks_words :: "ustr list" where
  "thanks_words =
     [asc ''te'' @ [s_cedilla] @ asc ''ekk'' @ [u_diaeresis] @ asc ''r'', asc ''tesekkur'',
      asc ''sa'' @ [g_breve] @ asc '' ol'', asc ''sag ol'']"

definition identity_words :: "ustr list" where
  "identity_words = [asc ''kimsin'', asc ''nesin'', asc ''ne yapars'' @ [dotless_i, 110]]"

definition small_talk :: "ustr \<Rightarrow> reply" where
  "small_talk lowered =
     (if any_in greeting_words lowered then Greeting
      else if any_in thanks_words lowered then Thanks
      else if any_in identity_words lowered then Identity
      else Fallback)"

text \<open>
  \<open>handle_message\<close> for one message: \<open>st\<close> is the database before, \<open>chat\<close> the value of
  \<^verbatim>\<open>_get_chat_id(update)\<close>, \<open>raw\<close> the message text, \<open>now\<close> the clock read at entry and
  \<open>clock\<close> the later reading inside \<open>create_task\<close> or \<open>create_goal\<close>. The result is the
  database after and the reply, or the exception that leaves the handler.
\<close>

definition handle_message ::
  "pylib \<Rightarrow> db \<Rightarrow> ustr \<Rightarrow> ustr \<Rightarrow> datetime \<Rightarrow> datetime \<Rightarrow> py_error + (db \<times> reply)" where
  "handle_message L st chat raw now clock =
     (let text = strip L raw;
          lowered = lower L text
      in case get_pending_task st chat of
        Some pending \<Rightarrow>
          (let ttl = pending_title pending in
           case parse_task_text L text now of
             Inl e \<Rightarrow> Inl e
           | Inr (parsed_title, due_opt) \<Rightarrow>
               (case due_opt of
                  None \<Rightarrow> Inr (st, AskDateAgain)
                | Some due \<Rightarrow>
                    (let st = fst (create_task L st ttl (Some due) (asc ''telegram'') clock);
                         st = clear_pending_task st (pending_id pending)
                     in Inr (st, Saved ttl due))))
      | None \<Rightarrow>
          if is_summary_request L text then Inr (st, Summary)
          else if template_request lowered then Inr (st, Templates)
          else if is_delete_request L text then
            (case re_search_id text of
               Some g \<Rightarrow>
                 (case py_int L g of
                    Inl e \<Rightarrow> Inl e
                  | Inr tid \<Rightarrow> Inr (st, send_delete_confirmation st tid))
             | None \<Rightarrow>
                 (let query = extract_action_query L text delete_words;
                      candidates = find_task_candidates L st query 5
                  in if length candidates = 1
                     then Inr (st, send_delete_confirmation st (task_id (hd candidates)))
                     else Inr (st, send_task_selection candidates Delete)))
          else if is_complete_request L text then
            (case re_search_id text of
               Some g \<Rightarrow>
                 (case py_int L g of
                    Inl e \<Rightarrow> Inl e
                  | Inr tid \<Rightarrow> Inr (st, send_done_confirmation st tid))
             | None \<Rightarrow>
                 (let query = extract_action_query L text
                        [asc ''tamamla'', asc ''tamamland'' @ [dotless_i],
                         asc ''tamamlad'' @ [dotless_i] @ asc ''m'', asc ''bitirdim'',
                         asc ''bitti''];
                      candidates = find_task_candidates L st query 5
                  in if length candidates = 1
                     then Inr (st, send_done_confirmation st (task_id (hd candidates)))
                     else Inr (st, send_task_selection candidates Done)))
          else if looks_like_task L text then
            (case parse_task_text L text now of
               Inl e \<Rightarrow> Inl e
             | Inr (ttl, due_opt) \<Rightarrow>
                 (let normalized_title = normalize_task_title L ttl in
                  case due_opt of
                    None \<Rightarrow>
                      Inr (fst (add_pending_task st chat normalized_title (to_utc_iso L now)),
                           AskWhen)
                  | Some due \<Rightarrow>
                      Inr (fst (create_task L st normalized_title (Some due) (asc ''telegram'')
                                  clock),
                           Saved normalized_title due)))
          else if list_request lowered
          then Inr (st, TaskList (list_tasks st (asc ''pending'') 20))
          else
            (let rest = Inr (st, small_talk lowered)
             in if str_in (asc ''hedef'') lowered then
                  (case re_search_year text of
                     None \<Rightarrow> rest
                   | Some g \<Rightarrow>
                       (case py_int L g of
                          Inl e \<Rightarrow> Inl e
                        | Inr yr \<Rightarrow>
                            (let ttl = strip L (replace g [] text) in
                             if ttl \<noteq> []
                             then Inr (fst (create_goal L st ttl yr clock), GoalAdded)
                             else rest)))
                else rest))"

section \<open>Vocabulary for the properties\<close>

text \<open>
  The replies each branch of \<open>handle_message\<close> can send, used to say which branch
  handled a message. \<open>handled_by errs P r\<close>: the outcome \<open>r\<close> is a reply satisfying \<open>P\<close>,
  or the handler left with one of the exceptions \<open>errs\<close>.
\<close>

fun date_answer_reply :: "ustr \<Rightarrow> reply \<Rightarrow> bool" where
  "date_answer_reply ttl AskDateAgain = True"
| "date_answer_reply ttl (Saved t d) = (t = ttl)"
| "date_answer_reply ttl r = False"

fun action_reply :: "action \<Rightarrow> reply \<Rightarrow> bool" where
  "action_reply act TaskNotFound = True"
| "action_reply act (Confirm a tid ttl) = (a = act)"
| "action_reply act NoMatch = True"
| "action_reply act (Choose a ts) = (a = act)"
| "action_reply act r = False"

fun task_like_reply :: "reply \<Rightarrow> bool" where
  "task_like_reply AskWhen = True"
| "task_like_reply (Saved t d) = True"
| "task_like_reply r = False"

definition handled_by ::
  "py_error list \<Rightarrow> (reply \<Rightarrow> bool) \<Rightarrow> py_error + (db \<times> reply) \<Rightarrow> bool" where
  "handled_by errs P r = (case r of Inl e \<Rightarrow> e \<in> set errs | Inr (st, rep) \<Rightarrow> P rep)"






section \<open>A concrete library for Turkish text\<close>

text \<open>
  For evaluating the functions on concrete messages, \<open>tr_lib\<close> instantiates the library
  parameter with the Unicode tables of the code points below U+0180 (Basic Latin, Latin-1
  Supplement and Latin Extended-A, which hold every letter of Turkish). Above that range
  the tables are left unpopulated, so \<open>tr_lib\<close> is only used on text within the range.
  Its time zone is Europe/Istanbul, three hours ahead of UTC throughout. The date search is
  an argument, since the results of \<^verbatim>\<open>dateparser\<close> are not part of the program.
\<close>

definition tr_isspace :: "nat \<Rightarrow> bool" where
  "tr_isspace c = (c \<in> set [9, 10, 11, 12, 13, 28, 29, 30, 31, 32, 133, 160])"

definition tr_isword :: "nat \<Rightarrow> bool" where
  "tr_isword c =
     ((48 \<le> c \<and> c \<le> 57) \<or> (65 \<le> c \<and> c \<le> 90) \<or> c = 95 \<or> (97 \<le> c \<and> c \<le> 122)
      \<or> c \<in> set [170, 178, 179, 181, 185, 186, 188, 189, 190]
      \<or> (192 \<le> c \<and> c \<le> 214) \<or> (216 \<le> c \<and> c \<le> 246) \<or> (248 \<le> c \<and> c < 384))"

definition tr_decimal :: "nat \<Rightarrow> nat option" where
  "tr_decimal c = (if 48 \<le> c \<and> c \<le> 57 then Some (c - 48) else None)"

definition lower_cp :: "nat \<Rightarrow> ustr" where
  "lower_cp c =
     (if 65 \<le> c \<and> c \<le> 90 then [c + 32]
      else if (192 \<le> c \<and> c \<le> 214) \<or> (216 \<le> c \<and> c \<le> 222) then [c + 32]
      else if c = 304 then [105, 775]
      else if c = 376 then [255]
      else if ((256 \<le> c \<and> c \<le> 303) \<or> (306 \<le> c \<and> c \<le> 311) \<or> (330 \<le> c \<and> c \<le> 375))
              \<and> even c then [c + 1]
      else if ((313 \<le> c \<and> c \<le> 328) \<or> (377 \<le> c \<and> c \<le> 382)) \<and> odd c then [c + 1]
      else [c])"

definition upper_cp :: "nat \<Rightarrow> ustr" where
  "upper_cp c =
     (if 97 \<le> c \<and> c \<le> 122 then [c - 32]
      else if (224 \<le> c \<and> c \<le> 246) \<or> (248 \<le> c \<and> c \<le> 254) then [c - 32]
      else if c = 255 then [376]
      else if c = 181 then [924]
      else if c = 223 then [83, 115]
      else if c = 305 then [73]
      else if c = 383 then [83]
      else if c = 329 then [700, 78]
      else if ((257 \<le> c \<and> c \<le> 303) \<or> (307 \<le> c \<and> c \<le> 311) \<or> (331 \<le> c \<and> c \<le> 375))
              \<and> odd c then [c - 1]
      else if ((314 \<le> c \<and> c \<le> 328) \<or> (378 \<le> c \<and> c \<le> 382)) \<and> even c then [c - 1]
      else [c])"

definition tr_lower :: "ustr \<Rightarrow> ustr" where
  "tr_lower s = concat (map lower_cp s)"

definition tr_capitalize :: "ustr \<Rightarrow> ustr" where
  "tr_capitalize s = (case s of [] \<Rightarrow> [] | c # cs \<Rightarrow> upper_cp c @ tr_lower cs)"

definition simple_lower :: "nat \<Rightarrow> nat" where
  "simple_lower c = (if c = 304 then 105 else hd (lower_cp c))"

definition tr_ieq :: "nat \<Rightarrow> nat \<Rightarrow> bool" where
  "tr_ieq p c =
     (let lp = simple_lower p; lc = simple_lower c
      in lc = lp \<or> (lp \<in> set [105, 305] \<and> lc \<in> set [105, 305])
         \<or> (lp \<in> set [115, 383] \<and> lc \<in> set [115, 383]))"

definition pad2 :: "nat \<Rightarrow> ustr" where
  "pad2 n = [48 + n div 10 mod 10, 48 + n mod 10]"

definition pad4 :: "nat \<Rightarrow> ustr" where
  "pad4 n = pad2 (n div 100) @ pad2 (n mod 100)"

definition pad6 :: "nat \<Rightarrow> ustr" where
  "pad6 n = pad2 (n div 10000) @ pad4 (n mod 10000)"

definition minus_3h :: "datetime \<Rightarrow> datetime" where
  "minus_3h d =
     (if 3 \<le> hour d then d\<lparr>hour := hour d - 3\<rparr>
      else (case prev_day d of
              Inl e \<Rightarrow> d
            | Inr p \<Rightarrow> p\<lparr>hour := hour d + 21\<rparr>))"

definition istanbul_utc_iso :: "datetime \<Rightarrow> ustr" where
  "istanbul_utc_iso d =
     (let e = minus_3h d in
      pad4 (year e) @ asc ''-'' @ pad2 (month e) @ asc ''-''
        @ pad2 (day e) @ asc ''T'' @ pad2 (hour e) @ asc '':''
        @ pad2 (minute e) @ asc '':'' @ pad2 (second e)
        @ (if microsecond e = 0 then [] else asc ''.'' @ pad6 (microsecond e))
        @ asc ''+00:00'')"

definition tr_lib :: "(ustr \<Rightarrow> datetime \<Rightarrow> (ustr \<times> datetime) list) \<Rightarrow> pylib" where
  "tr_lib sd =
     \<lparr>isspace = tr_isspace, isword = tr_isword, decimal = tr_decimal, lower = tr_lower,
      capitalize = tr_capitalize, ieq = tr_ieq, search_dates = sd,
      utc_isoformat = istanbul_utc_iso, timezone = ''Europe/Istanbul''\<rparr>"

text \<open>Two date searches: one that finds nothing, one that only knows \<^verbatim>\<open>yar\<dots>n\<close> (tomorrow).\<close>

definition no_dates :: "ustr \<Rightarrow> datetime \<Rightarrow> (ustr \<times> datetime) list" where
  "no_dates text now = []"

definition finds_yarin :: "ustr \<Rightarrow> datetime \<Rightarrow> (ustr \<times> datetime) list" where
  "finds_yarin text now =
     (if str_in (asc ''yar'' @ [dotless_i] @ asc ''n'') text
      then [(asc ''yar'' @ [dotless_i] @ asc ''n'', next_day now)]
      else [])"

section \<open>Concrete databases and messages\<close>

definition empty_db :: db where
  "empty_db = \<lparr>tasks = [], tasks_seq = 0, pending_tasks = [], pending_tasks_seq = 0,
     goals = [], goals_seq = 0\<rparr>"

definition market_task :: task where
  "market_task = \<lparr>task_id = 12, title = asc ''Market al'' @ [dotless_i, s_cedilla] @ asc ''veri''
       @ [s_cedilla] @ asc ''i'',
     due_at = None, created_at = asc ''2026-11-01T09:00:00+00:00'', status = asc ''pending'',
     source = Some (asc ''telegram''), reminded_at = None, task_notes = None\<rparr>"

definition thesis_task :: task where
  "thesis_task = \<lparr>task_id = 7, title = asc ''Thesis proposal'',
     due_at = Some (asc ''2026-11-20T06:00:00+00:00''),
     created_at = asc ''2026-10-30T08:15:00+00:00'', status = asc ''pending'',
     source = Some (asc ''telegram''), reminded_at = None, task_notes = None\<rparr>"

definition two_tasks_db :: db where
  "two_tasks_db = empty_db\<lparr>tasks := [thesis_task, market_task], tasks_seq := 12\<rparr>"

definition chat42 :: ustr where
  "chat42 = asc ''42''"

definition how_are_you :: ustr where
  "how_are_you = asc ''nas'' @ [dotless_i] @ asc ''ls'' @ [dotless_i] @ asc ''n''"

definition armed_db :: db where
  "armed_db = empty_db\<lparr>pending_tasks := [\<lparr>pending_id = 1, chat_id = chat42,
       pending_title = asc ''Sunum.'', pending_created_at = asc ''2026-11-04T06:41:07+00:00''\<rparr>],
     pending_tasks_seq := 1\<rparr>"
subsection \<open>Concrete instants\<close>

definition wed_2026 :: datetime where
  "wed_2026 = \<lparr>year = 2026, month = 11, day = 4, hour = 9, minute = 41, second = 7,
     microsecond = 250, tzinfo = Some ''Europe/Istanbul''\<rparr>"

definition tue_9999 :: datetime where
  "tue_9999 = \<lparr>year = 9999, month = 12, day = 28, hour = 9, minute = 0, second = 0,
     microsecond = 0, tzinfo = Some ''Europe/Istanbul''\<rparr>"

definition thu_2026 :: datetime where
  "thu_2026 = \<lparr>year = 2026, month = 1, day = 15, hour = 10, minute = 30, second = 12,
     microsecond = 5, tzinfo = Some ''Europe/Istanbul''\<rparr>"

section \<open>Calendar facts\<close>

lemma mod_100_4: "(n::nat) mod 100 = 0 \<Longrightarrow> n mod 4 = 0"
proof -
  assume a: "n mod 100 = 0"
  have "n mod 4 = n mod 100 mod 4" by (simp add: mod_mod_cancel)
  with a show ?thesis by simp
qed

lemma mod_400_100: "(n::nat) mod 400 = 0 \<Longrightarrow> n mod 100 = 0"
proof -
  assume a: "n mod 400 = 0"
  have "n mod 100 = n mod 400 mod 100" by (simp add: mod_mod_cancel)
  with a show ?thesis by simp
qed

lemma leap_step:
  fixes P A B C :: nat
  assumes "B \<le> A" and "l100 \<longrightarrow> l4" and "l400 \<longrightarrow> l100"
  shows "(365 + P) + (if l4 then Suc A else A) - (if l100 then Suc B else B)
           + (if l400 then Suc C else C)
         = P + A - B + C + (if l4 \<and> (\<not> l100 \<or> l400) then 366 else 365)"
  using assms by auto

lemma days_before_year_Suc:
  assumes "1 \<le> y"
  shows "days_before_year (Suc y) = days_before_year y + (if is_leap y then 366 else 365)"
proof -
  from assms obtain p where y: "y = Suc p" by (cases y) auto
  have le: "p div 100 \<le> p div 4" by (rule div_le_mono2) simp_all
  have l1: "Suc p mod 100 = 0 \<longrightarrow> Suc p mod 4 = 0" by (rule impI) (rule mod_100_4)
  have l2: "Suc p mod 400 = 0 \<longrightarrow> Suc p mod 100 = 0" by (rule impI) (rule mod_400_100)
  have "days_before_year (Suc y) =
      (365 + p * 365) + (if Suc p mod 4 = 0 then Suc (p div 4) else p div 4)
        - (if Suc p mod 100 = 0 then Suc (p div 100) else p div 100)
        + (if Suc p mod 400 = 0 then Suc (p div 400) else p div 400)"
    unfolding y days_before_year_def Let_def by (simp only: diff_Suc_1 div_Suc mult_Suc)
  also have "\<dots> = p * 365 + p div 4 - p div 100 + p div 400
       + (if Suc p mod 4 = 0 \<and> (\<not> Suc p mod 100 = 0 \<or> Suc p mod 400 = 0) then 366 else 365)"
    by (rule leap_step [OF le l1 l2])
  also have "\<dots> = days_before_year y + (if is_leap y then 366 else 365)"
    unfolding y days_before_year_def Let_def is_leap_def by (simp only: diff_Suc_1)
  finally show ?thesis .
qed

lemma days_before_month_Suc:
  "1 \<le> m \<Longrightarrow> m < 12 \<Longrightarrow> days_before_month y (Suc m) = days_before_month y m + days_in_month y m"
proof -
  assume "1 \<le> m" "m < 12"
  then have "m = 1 \<or> m = 2 \<or> m = 3 \<or> m = 4 \<or> m = 5 \<or> m = 6 \<or> m = 7 \<or> m = 8 \<or> m = 9 \<or> m = 10 \<or> m = 11"
    by arith
  then show ?thesis
    by (elim disjE) (simp_all add: days_before_month_def days_in_month_def eval_nat_numeral)
qed

lemma toordinal_next_day:
  assumes "valid_date d"
  shows "toordinal (next_day d) = toordinal d + 1"
proof (cases "day d < days_in_month (year d) (month d)")
  case True
  then show ?thesis by (simp add: next_day_def toordinal_def)
next
  case False
  with assms have dd: "day d = days_in_month (year d) (month d)"
    by (simp add: valid_date_def)
  show ?thesis
  proof (cases "month d < 12")
    case True
    from assms have "1 \<le> month d" by (simp add: valid_date_def)
    from days_before_month_Suc [OF this True, of "year d"] dd True show ?thesis
      by (simp add: next_day_def toordinal_def)
  next
    case False
    with assms have m: "month d = 12" by (simp add: valid_date_def)
    from assms have "1 \<le> year d" by (simp add: valid_date_def)
    from days_before_year_Suc [OF this] dd m show ?thesis
      by (simp add: next_day_def toordinal_def days_before_month_def days_in_month_def)
  qed
qed

lemma days_in_month_pos: "Suc 0 \<le> days_in_month y m"
  by (simp add: days_in_month_def)

lemma valid_date_next_day:
  assumes "valid_date d"
  shows "valid_date (next_day d)"
proof (cases "day d < days_in_month (year d) (month d)")
  case True
  with assms show ?thesis by (simp add: next_day_def valid_date_def)
next
  case False
  note nd = this
  show ?thesis
  proof (cases "month d < 12")
    case True
    with nd assms show ?thesis
      by (simp add: next_day_def valid_date_def days_in_month_pos)
  next
    case False
    with nd assms show ?thesis
      by (simp add: next_day_def valid_date_def days_in_month_pos)
  qed
qed

lemma next_day_time:
  "hour (next_day d) = hour d \<and> minute (next_day d) = minute d
   \<and> second (next_day d) = second d \<and> microsecond (next_day d) = microsecond d
   \<and> tzinfo (next_day d) = tzinfo d"
  by (simp add: next_day_def)

lemma funpow_next_day:
  assumes "valid_date d"
  shows "valid_date ((next_day ^^ k) d) \<and> toordinal ((next_day ^^ k) d) = toordinal d + k
    \<and> tzinfo ((next_day ^^ k) d) = tzinfo d"
proof (induction k)
  case 0
  from assms show ?case by simp
next
  case (Suc k)
  then show ?case
    by (simp add: valid_date_next_day toordinal_next_day next_day_time)
qed

lemma days_before_year_mono: "1 \<le> a \<Longrightarrow> a \<le> b \<Longrightarrow> days_before_year a \<le> days_before_year b"
proof (induction b)
  case 0
  then show ?case by simp
next
  case (Suc b)
  show ?case
  proof (cases "a = Suc b")
    case True
    then show ?thesis by simp
  next
    case False
    with Suc.prems have ab: "a \<le> b" by simp
    with Suc.prems have "1 \<le> b" by simp
    from days_before_year_Suc [OF this] Suc.IH [OF Suc.prems(1) ab] show ?thesis by simp
  qed
qed

lemma days_before_year_10000: "days_before_year 10000 = 3652059"
  by (simp add: days_before_year_def)

lemma toordinal_year_bound:
  assumes "valid_date d" and "toordinal d \<le> 3652059"
  shows "year d \<le> MAXYEAR"
proof (rule ccontr)
  assume "\<not> year d \<le> MAXYEAR"
  then have "10000 \<le> year d" by (simp add: MAXYEAR_def)
  from days_before_year_mono [OF _ this] have "3652059 \<le> days_before_year (year d)"
    by (simp add: days_before_year_10000)
  moreover from assms(1) have "1 \<le> day d" by (simp add: valid_date_def)
  ultimately have "3652060 \<le> toordinal d" by (simp add: toordinal_def)
  with assms(2) show False by simp
qed

lemma sunday_arith: "((t::nat) + (6 - (t + 6) mod 7) + 6) mod 7 = 6"
proof -
  have "(t + 6) mod 7 < 7" by simp
  obtain q r where qr: "t + 6 = 7 * q + r" "r = (t + 6) mod 7" "r < 7"
    by (metis mod_less_divisor mult_div_mod_eq zero_less_numeral)
  then have "t + (6 - r) + 6 = 7 * q + 6" by simp
  then have "(t + (6 - r) + 6) mod 7 = 6" by simp
  with qr show ?thesis by simp
qed

lemma day_of_year_bound:
  assumes "valid_date d"
  shows "days_before_month (year d) (month d) + day d \<le> (if is_leap (year d) then 366 else 365)"
proof -
  from assms have "month d = 1 \<or> month d = 2 \<or> month d = 3 \<or> month d = 4 \<or> month d = 5
      \<or> month d = 6 \<or> month d = 7 \<or> month d = 8 \<or> month d = 9 \<or> month d = 10
      \<or> month d = 11 \<or> month d = 12"
    unfolding valid_date_def by arith
  moreover from assms have "day d \<le> days_in_month (year d) (month d)"
    by (simp add: valid_date_def)
  ultimately show ?thesis
    by (elim disjE) (simp_all add: days_before_month_def days_in_month_def split: if_splits)
qed

lemma toordinal_le_next_year:
  assumes "valid_date d"
  shows "toordinal d \<le> days_before_year (Suc (year d))"
proof -
  from assms have "1 \<le> year d" by (simp add: valid_date_def)
  from days_before_year_Suc [OF this] day_of_year_bound [OF assms] show ?thesis
    by (simp add: toordinal_def split: if_splits)
qed

lemma days_before_year_9999: "days_before_year 9999 = 3651694"
  by (simp add: days_before_year_def)

lemma not_leap_9999: "\<not> is_leap 9999"
  by (simp add: is_leap_def)

lemma before_last_sunday:
  assumes v: "valid_date d" and y: "year d \<le> MAXYEAR"
    and h: "year d < MAXYEAR \<or> month d < 12 \<or> day d \<le> 26"
  shows "toordinal d \<le> 3652054"
proof (cases "year d < MAXYEAR")
  case True
  then have "Suc (year d) \<le> 9999" by (simp add: MAXYEAR_def)
  from days_before_year_mono [OF _ this] have "days_before_year (Suc (year d)) \<le> 3651694"
    by (simp add: days_before_year_9999)
  with toordinal_le_next_year [OF v] show ?thesis by simp
next
  case False
  with y have y9: "year d = 9999" by (simp add: MAXYEAR_def)
  show ?thesis
  proof (cases "month d < 12")
    case True
    with v have "month d = 1 \<or> month d = 2 \<or> month d = 3 \<or> month d = 4 \<or> month d = 5
      \<or> month d = 6 \<or> month d = 7 \<or> month d = 8 \<or> month d = 9 \<or> month d = 10
      \<or> month d = 11"
      unfolding valid_date_def by arith
    moreover from v have "day d \<le> days_in_month (year d) (month d)"
      by (simp add: valid_date_def)
    ultimately show ?thesis
      unfolding toordinal_def y9 days_before_year_9999
      by (elim disjE) (simp_all add: days_before_month_def days_in_month_def not_leap_9999)
  next
    case False
    with v have m: "month d = 12" by (simp add: valid_date_def)
    from False y9 h have "day d \<le> 26" by (simp add: MAXYEAR_def)
    then show ?thesis
      unfolding toordinal_def y9 m days_before_year_9999
      by (simp add: days_before_month_def not_leap_9999)
  qed
qed

lemma toordinal_time_update:
  "toordinal (d\<lparr>hour := h, minute := m, second := s, microsecond := u\<rparr>) = toordinal d"
  by (simp add: toordinal_def)

lemma funpow_small:
  "(f ^^ 0) x = x" "(f ^^ 1) x = f x" "(f ^^ 2) x = f (f x)" "(f ^^ 3) x = f (f (f x))"
  "(f ^^ 4) x = f (f (f (f x)))" "(f ^^ 5) x = f (f (f (f (f x))))"
  "(f ^^ 6) x = f (f (f (f (f (f x)))))"
  by (simp_all add: eval_nat_numeral)

text \<open>
  On the five days after Sunday 26 December 9999 the Sunday of the week lies in the year
  10000 and the addition raises \<^verbatim>\<open>OverflowError\<close>.
\<close>

lemma end_of_week_overflow:
  assumes "valid_datetime base" and "year base = MAXYEAR" and "month base = 12"
    and "27 \<le> day base"
  shows "end_of_week base = Inl OverflowError"
proof -
  from assms have "day base \<le> 31"
    by (simp add: valid_datetime_def days_in_month_def)
  with assms(4) have "day base = 27 \<or> day base = 28 \<or> day base = 29 \<or> day base = 30
      \<or> day base = 31"
    by arith
  then show ?thesis
    using assms(2,3)
    by (elim disjE)
      (simp_all add: end_of_week_def add_days_def weekday_def toordinal_def
        days_before_year_def days_before_month_def is_leap_def Let_def funpow_small
        next_day_def days_in_month_def MAXYEAR_def)
qed

text \<open>
  C9 (amended). For every valid instant \<open>base\<close> on or before Sunday 26 December 9999,
  \<open>end_of_week base\<close> returns an instant \<open>e\<close> in the zone of \<open>base\<close> that falls on a
  Sunday (\<open>weekday e = 6\<close>) at 23:59:00.000000, not before the date of \<open>base\<close> and in the
  same Monday-to-Sunday week (\<open>week_start\<close> agrees).
\<close>

theorem end_of_week_sunday:
  assumes v: "valid_datetime base"
    and h: "year base < MAXYEAR \<or> month base < 12 \<or> day base \<le> 26"
  shows "\<exists>e. end_of_week base = Inr e \<and> valid_datetime e \<and> tzinfo e = tzinfo base
      \<and> weekday e = 6 \<and> hour e = 23 \<and> minute e = 59 \<and> second e = 0 \<and> microsecond e = 0
      \<and> toordinal base \<le> toordinal e \<and> week_start e = week_start base"
proof -
  from v have vd: "valid_date base" and y: "year base \<le> MAXYEAR"
    by (simp_all add: valid_datetime_def valid_date_def)
  define k where "k = 6 - weekday base"
  define r where "r = (next_day ^^ k) base"
  define e where "e = r\<lparr>hour := 23, minute := 59, second := 0, microsecond := 0\<rparr>"
  have wd: "weekday base \<le> 6" by (simp add: weekday_def)
  from funpow_next_day [OF vd, of k]
  have vr: "valid_date r" and tr: "toordinal r = toordinal base + k" and zr: "tzinfo r = tzinfo base"
    by (simp_all add: r_def)
  have "k \<le> 6" by (simp add: k_def)
  from add_mono [OF before_last_sunday [OF vd y h] this] have le: "toordinal r \<le> 3652060"
    by (simp add: tr)
  have "(toordinal r + 6) mod 7 = 6"
    unfolding tr k_def weekday_def by (rule sunday_arith)
  then have "toordinal r + 6 = 7 * ((toordinal r + 6) div 7) + 6"
    using mult_div_mod_eq [of 7 "toordinal r + 6"] by simp
  then have "toordinal r = 7 * ((toordinal r + 6) div 7)" by simp
  then obtain q where q: "toordinal r = 7 * q" ..
  with le have "q \<le> 521722" by simp
  with q have "toordinal r \<le> 3652059" by simp
  from toordinal_year_bound [OF vr this] have yr: "year r \<le> MAXYEAR" .
  then have res: "end_of_week base = Inr e"
    by (simp add: end_of_week_def add_days_def Let_def k_def [symmetric] r_def [symmetric] e_def)
  have te: "toordinal e = toordinal base + k"
    by (simp add: e_def toordinal_time_update tr)
  have we: "weekday e = 6"
    unfolding weekday_def te k_def by (rule sunday_arith)
  have ve: "valid_datetime e"
    using vr yr by (simp add: valid_datetime_def valid_date_def e_def)
  have ws: "week_start e = week_start base"
    unfolding week_start_def we te k_def using wd by simp
  from res ve zr we te ws show ?thesis
    by (simp add: e_def)
qed

text \<open>Wednesday 4 November 2026, 09:41:07 is sent to Sunday 8 November, 23:59:00.\<close>

theorem end_of_week_sunday_witness:
  "valid_datetime wed_2026
   \<and> (year wed_2026 < MAXYEAR \<or> month wed_2026 < 12 \<or> day wed_2026 \<le> 26)
   \<and> end_of_week wed_2026 = Inr (wed_2026\<lparr>day := 8, hour := 23, minute := 59, second := 0, microsecond := 0\<rparr>)
   \<and> weekday wed_2026 = 2
   \<and> (\<exists>e. end_of_week wed_2026 = Inr e \<and> weekday e = 6 \<and> week_start e = week_start wed_2026)"
proof -
  have v: "valid_datetime wed_2026"
    by (simp add: wed_2026_def valid_datetime_def MAXYEAR_def days_in_month_def)
  have h: "year wed_2026 < MAXYEAR \<or> month wed_2026 < 12 \<or> day wed_2026 \<le> 26"
    by (simp add: wed_2026_def MAXYEAR_def)
  have w: "weekday wed_2026 = 2"
    by (simp add: wed_2026_def weekday_def toordinal_def days_before_year_def
        days_before_month_def is_leap_def)
  have e: "end_of_week wed_2026 = Inr (wed_2026\<lparr>day := 8, hour := 23, minute := 59, second := 0, microsecond := 0\<rparr>)"
    unfolding end_of_week_def w add_days_def Let_def
    by (simp add: funpow_small next_day_def wed_2026_def days_in_month_def MAXYEAR_def)
  from end_of_week_sunday [OF v h] v h w e show ?thesis by blast
qed

text \<open>
  C9 as stated quantifies over every aware instant. On Tuesday 28 December 9999 the
  Sunday of the week is 2 January 10000, beyond \<^verbatim>\<open>MAXYEAR\<close>: the addition raises
  \<^verbatim>\<open>OverflowError\<close> and no instant is returned.
\<close>

theorem end_of_week_counterexample:
  "valid_datetime tue_9999 \<and> tzinfo tue_9999 \<noteq> None \<and> end_of_week tue_9999 = Inl OverflowError"
proof -
  have w: "weekday tue_9999 = 1"
    by (simp add: tue_9999_def weekday_def toordinal_def days_before_year_def
        days_before_month_def is_leap_def)
  have "end_of_week tue_9999 = Inl OverflowError"
    unfolding end_of_week_def w add_days_def Let_def
    by (simp add: funpow_small next_day_def tue_9999_def days_in_month_def MAXYEAR_def)
  then show ?thesis
    by (simp add: tue_9999_def valid_datetime_def MAXYEAR_def days_in_month_def)
qed

text \<open>
  C8. \<open>end_of_month\<close> moves to the first day of the next month and keeps the time of day
  of \<open>base\<close> before stepping one minute back. For Thursday 15 January 2026, 10:30:12 the
  result is 1 February 2026, 10:29:00: not in January, not the last day of a month and not
  at 23:59:00.
\<close>

theorem end_of_month_next_month:
  "valid_datetime thu_2026 \<and> tzinfo thu_2026 \<noteq> None
   \<and> end_of_month thu_2026 =
      Inr \<lparr>year = 2026, month = 2, day = 1, hour = 10, minute = 29, second = 0,
           microsecond = 0, tzinfo = Some ''Europe/Istanbul''\<rparr>"
  by (simp add: thu_2026_def valid_datetime_def MAXYEAR_def days_in_month_def
      end_of_month_def sub_minute_def)

section \<open>Evaluating the functions on concrete input\<close>

text \<open>
  The defining equations used to compute with \<open>tr_lib\<close>, with strings and patterns, with the
  tables and with the handler. A \<^theory_text>\<open>let\<close> is unfolded only after its bound term has been
  computed (\<open>let_weak_cong\<close>).
\<close>

lemmas lib_simps = tr_lib_def tr_isspace_def tr_isword_def tr_decimal_def tr_lower_def
  lower_cp_def upper_cp_def tr_capitalize_def simple_lower_def tr_ieq_def no_dates_def
  finds_yarin_def istanbul_utc_iso_def minus_3h_def pad2_def pad4_def pad6_def

lemmas str_simps = asc_def startswith_def endswith_def any_in_def strip_def replace_def
  nth_opt_def is_w_def wb_def match_word_def match_hash_backslash_d_def token_sep_def Let_def

lemmas bot_simps = handle_message_def is_summary_request_def is_delete_request_def
  is_complete_request_def template_request_def list_request_def small_talk_def greeting_words_def
  thanks_words_def identity_words_def delete_words_def
  looks_like_task_def TASK_KEYWORDS_def extract_action_query_def find_task_candidates_def
  score_task_def tokenize_def slice_to_def send_task_selection_def send_delete_confirmation_def
  send_done_confirmation_def normalize_task_title_def parse_task_text_def strip_filler_def
  filler_words_def to_utc_iso_def

lemmas db_simps = get_pending_task_def get_task_def list_tasks_def sort_key_desc_def
  add_pending_task_def create_task_def clear_pending_task_def next_rowid_def
  empty_db_def two_tasks_db_def armed_db_def thesis_task_def market_task_def chat42_def


section \<open>Facts about the tables and the handler\<close>

lemma sort_key_desc_Nil_iff: "sort_key_desc f xs = [] \<longleftrightarrow> xs = []"
proof -
  have "length (sort_key_desc f xs) = length xs"
    by (simp add: sort_key_desc_def)
  then show ?thesis by (metis length_0_conv)
qed


lemma get_pending_task_None_iff:
  "get_pending_task st chat = None \<longleftrightarrow> (\<forall>p \<in> set (pending_tasks st). chat_id p \<noteq> chat)"
proof -
  have "get_pending_task st chat = None
      \<longleftrightarrow> sort_key_desc pending_created_at (filter (\<lambda>p. chat_id p = chat) (pending_tasks st)) = []"
    by (simp add: get_pending_task_def split: list.splits)
  also have "\<dots> \<longleftrightarrow> filter (\<lambda>p. chat_id p = chat) (pending_tasks st) = []"
    by (rule sort_key_desc_Nil_iff)
  also have "\<dots> \<longleftrightarrow> (\<forall>p \<in> set (pending_tasks st). chat_id p \<noteq> chat)"
    by (simp add: filter_empty_conv)
  finally show ?thesis .
qed


lemma get_pending_task_single:
  assumes "filter (\<lambda>p. chat_id p = chat) (pending_tasks st) = [row]"
  shows "get_pending_task st chat = Some row"
  using assms by (simp add: get_pending_task_def sort_key_desc_def)

lemma pending_tasks_create_task:
  "pending_tasks (fst (create_task L st ttl due src clock)) = pending_tasks st"
  by (simp add: create_task_def Let_def)


lemma pending_tasks_clear:
  "pending_tasks (clear_pending_task st pid) = filter (\<lambda>p. pending_id p \<noteq> pid) (pending_tasks st)"
  by (simp add: clear_pending_task_def)

lemma pending_tasks_add:
  "pending_tasks (fst (add_pending_task st chat ttl created)) =
     pending_tasks st @ [\<lparr>pending_id = next_rowid (pending_tasks_seq st) (map pending_id (pending_tasks st)),
        chat_id = chat, pending_title = ttl, pending_created_at = created\<rparr>]"
  by (simp add: add_pending_task_def Let_def)

lemma fold_max_ge: "(x::int) \<in> set xs \<Longrightarrow> x \<le> fold max xs a"
proof (induction xs arbitrary: a)
  case Nil
  then show ?case by simp
next
  case (Cons y ys)
  have mono: "\<And>b. b \<le> fold max ys b"
  proof -
    fix b show "b \<le> fold max ys b"
      by (induction ys arbitrary: b) (auto intro: order_trans [OF max.cobounded2])
  qed
  from Cons show ?case
  proof (cases "x = y")
    case True
    have "y \<le> max y a" by simp
    also have "\<dots> \<le> fold max ys (max y a)" by (rule mono)
    finally show ?thesis using True by simp
  next
    case False
    with Cons.prems have "x \<in> set ys" by simp
    from Cons.IH [OF this] show ?thesis by simp
  qed
qed

lemma next_rowid_fresh: "next_rowid seq ids \<notin> set ids"
proof
  assume "next_rowid seq ids \<in> set ids"
  from fold_max_ge [OF this, of seq] show False by (simp add: next_rowid_def)
qed


lemma handle_message_pending:
  assumes "get_pending_task st chat = Some p"
  shows "handle_message L st chat raw now clock =
     (case parse_task_text L (strip L raw) now of
        Inl e \<Rightarrow> Inl e
      | Inr (t, None) \<Rightarrow> Inr (st, AskDateAgain)
      | Inr (t, Some due) \<Rightarrow>
          Inr (clear_pending_task
                 (fst (create_task L st (pending_title p) (Some due) (asc ''telegram'') clock))
                 (pending_id p),
               Saved (pending_title p) due))"
  using assms
  by (simp add: handle_message_def Let_def split: sum.splits prod.splits option.splits)

lemma handle_message_task_like:
  assumes "get_pending_task st chat = None"
    and "\<not> is_summary_request L (strip L raw)"
    and "\<not> template_request (lower L (strip L raw))"
    and "\<not> is_delete_request L (strip L raw)"
    and "\<not> is_complete_request L (strip L raw)"
    and "looks_like_task L (strip L raw)"
  shows "handle_message L st chat raw now clock =
     (case parse_task_text L (strip L raw) now of
        Inl e \<Rightarrow> Inl e
      | Inr (t, None) \<Rightarrow>
          Inr (fst (add_pending_task st chat (normalize_task_title L t) (to_utc_iso L now)),
               AskWhen)
      | Inr (t, Some due) \<Rightarrow>
          Inr (fst (create_task L st (normalize_task_title L t) (Some due) (asc ''telegram'')
                      clock),
               Saved (normalize_task_title L t) due))"
  using assms
  by (simp add: handle_message_def Let_def split: sum.splits prod.splits option.splits)

lemma digits_value_error: "digits_value L a s = Inl e \<Longrightarrow> e = ValueError"
  by (induction L a s rule: digits_value.induct) (auto split: option.splits if_splits)

lemma py_int_error: "py_int L s = Inl e \<Longrightarrow> e = ValueError"
  by (auto simp add: py_int_def Let_def split: if_splits sum.splits dest: digits_value_error)

lemma handled_by_Inr: "handled_by errs P (Inr (st, rep)) = P rep"
  by (simp add: handled_by_def)

lemma handled_by_Inl: "handled_by errs P (Inl e) = (e \<in> set errs)"
  by (simp add: handled_by_def)

lemma py_error_cases: "e = ValueError \<or> e = OverflowError"
  by (cases e) simp_all

lemma send_delete_confirmation_reply: "action_reply Delete (send_delete_confirmation st tid)"
  by (simp add: send_delete_confirmation_def split: option.splits)

lemma send_done_confirmation_reply: "action_reply Done (send_done_confirmation st tid)"
  by (simp add: send_done_confirmation_def split: option.splits)

lemma send_task_selection_reply: "action_reply act (send_task_selection ts act)"
  by (simp add: send_task_selection_def)

text \<open>
  C2 (amended). The decision of \<open>handle_message\<close> follows a fixed order. With a pending
  task for the conversation the message is a date answer whatever its keywords: the reply
  asks for the date again or confirms the stored title. Without one, a summary keyword gives
  the summary even if other keywords match; next a template keyword (\<^verbatim>\<open>template\<close> and its
  Turkish forms) gives the template list, also when delete, complete or task keywords
  match; then a delete keyword is handled before a complete keyword, and a complete keyword
  before a task keyword. A message with none of these is answered, in this order: with the
  list of open tasks if it holds a list keyword; by the goal branch if it holds \<^verbatim>\<open>hedef\<close> and
  the year pattern matches (the exception of \<^verbatim>\<open>int\<close>, or a new goal when text is left
  beside the year); with the greeting, the thanks or the self-description if it holds a
  keyword of that list; and with the generic fallback exactly when none of these applies.
\<close>

theorem decision_order:
  "(\<forall>p. get_pending_task st chat = Some p \<longrightarrow>
       handled_by [ValueError, OverflowError] (date_answer_reply (pending_title p))
         (handle_message L st chat raw now clock))
   \<and> (get_pending_task st chat = None \<longrightarrow>
       (if is_summary_request L (strip L raw)
        then handle_message L st chat raw now clock = Inr (st, Summary)
        else if template_request (lower L (strip L raw))
        then handle_message L st chat raw now clock = Inr (st, Templates)
        else if is_delete_request L (strip L raw)
        then handled_by [ValueError] (action_reply Delete) (handle_message L st chat raw now clock)
        else if is_complete_request L (strip L raw)
        then handled_by [ValueError] (action_reply Done) (handle_message L st chat raw now clock)
        else if looks_like_task L (strip L raw)
        then handled_by [ValueError, OverflowError] task_like_reply
               (handle_message L st chat raw now clock)
        else if list_request (lower L (strip L raw))
        then handle_message L st chat raw now clock
               = Inr (st, TaskList (list_tasks st (asc ''pending'') 20))
        else (case (if str_in (asc ''hedef'') (lower L (strip L raw))
                    then re_search_year (strip L raw) else None) of
                Some g \<Rightarrow>
                  (case py_int L g of
                     Inl e \<Rightarrow> handle_message L st chat raw now clock = Inl e
                   | Inr yr \<Rightarrow>
                       if strip L (replace g [] (strip L raw)) \<noteq> []
                       then handle_message L st chat raw now clock
                              = Inr (fst (create_goal L st (strip L (replace g [] (strip L raw)))
                                            yr clock), GoalAdded)
                       else (if any_in greeting_words (lower L (strip L raw))
                       then handle_message L st chat raw now clock = Inr (st, Greeting)
                       else if any_in thanks_words (lower L (strip L raw))
                       then handle_message L st chat raw now clock = Inr (st, Thanks)
                       else if any_in identity_words (lower L (strip L raw))
                       then handle_message L st chat raw now clock = Inr (st, Identity)
                       else handle_message L st chat raw now clock = Inr (st, Fallback)))
              | None \<Rightarrow>
                  (if any_in greeting_words (lower L (strip L raw))
                       then handle_message L st chat raw now clock = Inr (st, Greeting)
                       else if any_in thanks_words (lower L (strip L raw))
                       then handle_message L st chat raw now clock = Inr (st, Thanks)
                       else if any_in identity_words (lower L (strip L raw))
                       then handle_message L st chat raw now clock = Inr (st, Identity)
                       else handle_message L st chat raw now clock = Inr (st, Fallback)))))"
proof (intro conjI allI impI)
  fix p
  assume "get_pending_task st chat = Some p"
  from handle_message_pending [OF this, of L raw now clock] py_error_cases
  show "handled_by [ValueError, OverflowError] (date_answer_reply (pending_title p))
         (handle_message L st chat raw now clock)"
    by (auto simp add: handled_by_def split: sum.splits prod.splits option.splits)
next
  assume idle: "get_pending_task st chat = None"
  let ?r = "handle_message L st chat raw now clock"
  let ?t = "strip L raw"
  consider (summary) "is_summary_request L ?t"
    | (template) "\<not> is_summary_request L ?t" "template_request (lower L ?t)"
    | (delete) "\<not> is_summary_request L ?t" "\<not> template_request (lower L ?t)"
        "is_delete_request L ?t"
    | (complete) "\<not> is_summary_request L ?t" "\<not> template_request (lower L ?t)"
        "\<not> is_delete_request L ?t" "is_complete_request L ?t"
    | (task) "\<not> is_summary_request L ?t" "\<not> template_request (lower L ?t)"
        "\<not> is_delete_request L ?t" "\<not> is_complete_request L ?t" "looks_like_task L ?t"
    | (other) "\<not> is_summary_request L ?t" "\<not> template_request (lower L ?t)"
        "\<not> is_delete_request L ?t" "\<not> is_complete_request L ?t" "\<not> looks_like_task L ?t"
    by blast
  then show "if is_summary_request L ?t then ?r = Inr (st, Summary)
        else if template_request (lower L ?t) then ?r = Inr (st, Templates)
        else if is_delete_request L ?t then handled_by [ValueError] (action_reply Delete) ?r
        else if is_complete_request L ?t then handled_by [ValueError] (action_reply Done) ?r
        else if looks_like_task L ?t
        then handled_by [ValueError, OverflowError] task_like_reply ?r
        else if list_request (lower L ?t)
        then ?r = Inr (st, TaskList (list_tasks st (asc ''pending'') 20))
        else (case (if str_in (asc ''hedef'') (lower L ?t) then re_search_year ?t else None) of
                Some g \<Rightarrow>
                  (case py_int L g of
                     Inl e \<Rightarrow> ?r = Inl e
                   | Inr yr \<Rightarrow>
                       if strip L (replace g [] ?t) \<noteq> []
                       then ?r = Inr (fst (create_goal L st (strip L (replace g [] ?t)) yr clock),
                                      GoalAdded)
                       else (if any_in greeting_words (lower L ?t) then ?r = Inr (st, Greeting)
                       else if any_in thanks_words (lower L ?t) then ?r = Inr (st, Thanks)
                       else if any_in identity_words (lower L ?t) then ?r = Inr (st, Identity)
                       else ?r = Inr (st, Fallback)))
              | None \<Rightarrow>
                  (if any_in greeting_words (lower L ?t) then ?r = Inr (st, Greeting)
                       else if any_in thanks_words (lower L ?t) then ?r = Inr (st, Thanks)
                       else if any_in identity_words (lower L ?t) then ?r = Inr (st, Identity)
                       else ?r = Inr (st, Fallback)))"
  proof cases
    case summary
    with idle show ?thesis by (simp add: handle_message_def Let_def)
  next
    case template
    with idle show ?thesis by (simp add: handle_message_def Let_def)
  next
    case delete
    with idle have "handled_by [ValueError] (action_reply Delete) ?r"
      by (auto simp add: handle_message_def Let_def handled_by_def
          send_delete_confirmation_reply send_task_selection_reply
          split: option.splits sum.splits dest: py_int_error)
    with delete show ?thesis by simp
  next
    case complete
    with idle have "handled_by [ValueError] (action_reply Done) ?r"
      by (auto simp add: handle_message_def Let_def handled_by_def
          send_done_confirmation_reply send_task_selection_reply
          split: option.splits sum.splits dest: py_int_error)
    with complete show ?thesis by simp
  next
    case task
    from handle_message_task_like [OF idle task, of now clock] py_error_cases
    have "handled_by [ValueError, OverflowError] task_like_reply ?r"
      by (auto simp add: handled_by_def split: sum.splits prod.splits option.splits)
    with task show ?thesis by simp
  next
    case other
    with idle show ?thesis
      by (simp add: handle_message_def Let_def small_talk_def split: option.splits sum.splits)
  qed
qed

text \<open>
  With a pending task the message \<^verbatim>\<open>ozet sil\<close> is a date answer; without one it is a summary
  request although it also holds the delete keyword \<^verbatim>\<open>sil\<close>. Of the messages without a
  keyword of the earlier branches, \<open>how_are_you\<close> is greeted and \<^verbatim>\<open>iyi geceler\<close> gets the
  fallback.
\<close>

lemma armed_db_pending:
  "get_pending_task armed_db chat42 = Some \<lparr>pending_id = 1, chat_id = chat42,
       pending_title = asc ''Sunum.'', pending_created_at = asc ''2026-11-04T06:41:07+00:00''\<rparr>"
  by (simp add: db_simps)

lemma empty_db_idle: "get_pending_task empty_db chat42 = None"
  by (simp add: db_simps)

lemma two_tasks_db_idle: "get_pending_task two_tasks_db chat42 = None"
  by (simp add: db_simps)

theorem decision_order_witness:
  "get_pending_task armed_db chat42 = Some \<lparr>pending_id = 1, chat_id = chat42,
       pending_title = asc ''Sunum.'', pending_created_at = asc ''2026-11-04T06:41:07+00:00''\<rparr>
   \<and> handled_by [ValueError, OverflowError] (date_answer_reply (asc ''Sunum.''))
         (handle_message (tr_lib no_dates) armed_db chat42 (asc ''ozet sil'') wed_2026 wed_2026)
   \<and> get_pending_task empty_db chat42 = None
   \<and> is_summary_request (tr_lib no_dates) (strip (tr_lib no_dates) (asc ''ozet sil''))
   \<and> is_delete_request (tr_lib no_dates) (strip (tr_lib no_dates) (asc ''ozet sil''))
   \<and> handle_message (tr_lib no_dates) empty_db chat42 (asc ''ozet sil'') wed_2026 wed_2026
       = Inr (empty_db, Summary)
   \<and> any_in greeting_words (lower (tr_lib no_dates) (strip (tr_lib no_dates) how_are_you))
   \<and> handle_message (tr_lib no_dates) empty_db chat42 how_are_you wed_2026 wed_2026
       = Inr (empty_db, Greeting)
   \<and> handle_message (tr_lib no_dates) empty_db chat42 (asc ''iyi geceler'') wed_2026 wed_2026
       = Inr (empty_db, Fallback)"
proof -
  let ?L = "tr_lib no_dates"
  let ?n = "how_are_you"
  let ?f = "asc ''iyi geceler''"
  have n0: "strip ?L ?n = ?n" "lower ?L ?n = ?n"
    by (simp_all add: how_are_you_def lib_simps str_simps)
  have n1: "\<not> is_summary_request ?L ?n" "\<not> template_request ?n" "\<not> is_delete_request ?L ?n"
    "\<not> is_complete_request ?L ?n" "\<not> looks_like_task ?L ?n" "\<not> list_request ?n"
    "\<not> str_in (asc ''hedef'') ?n" "any_in greeting_words ?n"
    by (simp_all add: is_summary_request_def template_request_def is_delete_request_def
        delete_words_def is_complete_request_def looks_like_task_def TASK_KEYWORDS_def
        list_request_def greeting_words_def how_are_you_def lib_simps str_simps)
  have f0: "strip ?L ?f = ?f" "lower ?L ?f = ?f"
    by (simp_all add: lib_simps str_simps)
  have f1: "\<not> is_summary_request ?L ?f" "\<not> template_request ?f" "\<not> is_delete_request ?L ?f"
    "\<not> is_complete_request ?L ?f" "\<not> looks_like_task ?L ?f" "\<not> list_request ?f"
    "\<not> str_in (asc ''hedef'') ?f" "\<not> any_in greeting_words ?f" "\<not> any_in thanks_words ?f"
    "\<not> any_in identity_words ?f"
    by (simp_all add: is_summary_request_def template_request_def is_delete_request_def
        delete_words_def is_complete_request_def looks_like_task_def TASK_KEYWORDS_def
        list_request_def greeting_words_def thanks_words_def identity_words_def
        lib_simps str_simps)
  from decision_order [of empty_db chat42 ?L ?n wed_2026 wed_2026] empty_db_idle n1
  have gr: "handle_message ?L empty_db chat42 ?n wed_2026 wed_2026 = Inr (empty_db, Greeting)"
    by (simp add: n0)
  from decision_order [of empty_db chat42 ?L ?f wed_2026 wed_2026] empty_db_idle f1
  have fb: "handle_message ?L empty_db chat42 ?f wed_2026 wed_2026 = Inr (empty_db, Fallback)"
    by (simp add: f0)
  have s: "is_summary_request (tr_lib no_dates) (strip (tr_lib no_dates) (asc ''ozet sil''))"
    by (simp add: is_summary_request_def lib_simps str_simps)
  have d: "is_delete_request (tr_lib no_dates) (strip (tr_lib no_dates) (asc ''ozet sil''))"
    by (simp add: is_delete_request_def delete_words_def lib_simps str_simps)
  from decision_order [of armed_db chat42 "tr_lib no_dates" "asc ''ozet sil''" wed_2026 wed_2026]
    decision_order [of empty_db chat42 "tr_lib no_dates" "asc ''ozet sil''" wed_2026 wed_2026]
    armed_db_pending empty_db_idle s d
  have "get_pending_task armed_db chat42 = Some \<lparr>pending_id = 1, chat_id = chat42,
       pending_title = asc ''Sunum.'', pending_created_at = asc ''2026-11-04T06:41:07+00:00''\<rparr>
   \<and> handled_by [ValueError, OverflowError] (date_answer_reply (asc ''Sunum.''))
         (handle_message (tr_lib no_dates) armed_db chat42 (asc ''ozet sil'') wed_2026 wed_2026)
   \<and> get_pending_task empty_db chat42 = None
   \<and> is_summary_request (tr_lib no_dates) (strip (tr_lib no_dates) (asc ''ozet sil''))
   \<and> is_delete_request (tr_lib no_dates) (strip (tr_lib no_dates) (asc ''ozet sil''))
   \<and> handle_message (tr_lib no_dates) empty_db chat42 (asc ''ozet sil'') wed_2026 wed_2026
       = Inr (empty_db, Summary)"
    by simp
  with gr fb n1(8) show ?thesis by (simp add: n0)
qed

text \<open>
  C2 as stated puts nothing between the summary and the delete category and sends every
  message without a keyword of the four categories to the fallback. The message
  \<^verbatim>\<open>template sil\<close> holds a delete keyword and no summary keyword, and is answered with the
  template list; \<^verbatim>\<open>liste\<close> holds no keyword of the four categories, and is answered with the
  list of open tasks.
\<close>

theorem decision_order_counterexample:
  "get_pending_task empty_db chat42 = None
   \<and> \<not> is_summary_request (tr_lib no_dates) (asc ''template sil'')
   \<and> is_delete_request (tr_lib no_dates) (asc ''template sil'')
   \<and> handle_message (tr_lib no_dates) empty_db chat42 (asc ''template sil'') wed_2026 wed_2026
       = Inr (empty_db, Templates)
   \<and> get_pending_task two_tasks_db chat42 = None
   \<and> \<not> is_summary_request (tr_lib no_dates) (asc ''liste'')
   \<and> \<not> is_delete_request (tr_lib no_dates) (asc ''liste'')
   \<and> \<not> is_complete_request (tr_lib no_dates) (asc ''liste'')
   \<and> \<not> looks_like_task (tr_lib no_dates) (asc ''liste'')
   \<and> handle_message (tr_lib no_dates) two_tasks_db chat42 (asc ''liste'') wed_2026 wed_2026
       = Inr (two_tasks_db, TaskList [thesis_task, market_task])"
proof -
  let ?L = "tr_lib no_dates"
  have a: "\<not> is_summary_request ?L (asc ''template sil'')"
    by (simp add: is_summary_request_def lib_simps str_simps)
  have b: "is_delete_request ?L (asc ''template sil'')"
    by (simp add: is_delete_request_def delete_words_def lib_simps str_simps)
  have c: "handle_message ?L empty_db chat42 (asc ''template sil'') wed_2026 wed_2026
       = Inr (empty_db, Templates)"
    by (simp add: bot_simps db_simps lib_simps str_simps cong: let_weak_cong)
  have d: "\<not> is_summary_request ?L (asc ''liste'')"
    by (simp add: is_summary_request_def lib_simps str_simps)
  have e: "\<not> is_delete_request ?L (asc ''liste'')"
    by (simp add: is_delete_request_def delete_words_def lib_simps str_simps)
  have f: "\<not> is_complete_request ?L (asc ''liste'')"
    by (simp add: is_complete_request_def lib_simps str_simps)
  have g: "\<not> looks_like_task ?L (asc ''liste'')"
    by (simp add: looks_like_task_def TASK_KEYWORDS_def lib_simps str_simps)
  have h: "handle_message ?L two_tasks_db chat42 (asc ''liste'') wed_2026 wed_2026
       = Inr (two_tasks_db, TaskList [thesis_task, market_task])"
    by (simp add: bot_simps db_simps lib_simps str_simps cong: let_weak_cong)
  from empty_db_idle two_tasks_db_idle a b c d e f g h show ?thesis by blast
qed

section \<open>The title when only a date phrase is left\<close>

text \<open>
  C10. When the date search finds a phrase and replacing every occurrence of the last phrase
  found by a blank leaves nothing but whitespace, \<open>parse_task_text\<close> returns the whole
  message, stripped of surrounding whitespace, as the title: the date phrase is still in it
  and \<open>strip_filler\<close> is not applied. The due date is the instant found.
\<close>

theorem parse_task_text_only_date_phrase:
  assumes "search_dates L text now = found" and "found \<noteq> []"
    and "last found = (phrase, dt)"
    and "strip L (replace phrase (asc '' '') text) = []"
  shows "parse_task_text L text now =
     Inr (strip L text,
          Some (if tzinfo dt = None then dt\<lparr>tzinfo := Some (timezone L)\<rparr> else dt))"
  using assms by (simp add: parse_task_text_def Let_def)

text \<open>The message consisting of \<^verbatim>\<open>yar\<dots>n\<close> between blanks keeps \<^verbatim>\<open>yar\<dots>n\<close> as its title.\<close>

theorem parse_task_text_only_date_phrase_witness:
  "search_dates (tr_lib finds_yarin) (asc '' yar'' @ [dotless_i] @ asc ''n  '') wed_2026
     = [(asc ''yar'' @ [dotless_i] @ asc ''n'', next_day wed_2026)]
   \<and> strip (tr_lib finds_yarin) (replace (asc ''yar'' @ [dotless_i] @ asc ''n'') (asc '' '')
        (asc '' yar'' @ [dotless_i] @ asc ''n  '')) = []
   \<and> parse_task_text (tr_lib finds_yarin) (asc '' yar'' @ [dotless_i] @ asc ''n  '') wed_2026
     = Inr (asc ''yar'' @ [dotless_i] @ asc ''n'', Some (wed_2026\<lparr>day := 5\<rparr>))"
proof -
  let ?L = "tr_lib finds_yarin"
  let ?t = "asc '' yar'' @ [dotless_i] @ asc ''n  ''"
  let ?ph = "asc ''yar'' @ [dotless_i] @ asc ''n''"
  have f: "search_dates ?L ?t wed_2026 = [(?ph, next_day wed_2026)]"
    by (simp add: lib_simps str_simps)
  have ne: "[(?ph, next_day wed_2026)] \<noteq> []" by simp
  have l: "last [(?ph, next_day wed_2026)] = (?ph, next_day wed_2026)" by simp
  have e: "strip ?L (replace ?ph (asc '' '') ?t) = []"
    by (simp add: lib_simps str_simps)
  have s: "strip ?L ?t = ?ph"
    by (simp add: lib_simps str_simps)
  have d: "(if tzinfo (next_day wed_2026) = None
            then (next_day wed_2026)\<lparr>tzinfo := Some (timezone ?L)\<rparr> else next_day wed_2026)
           = wed_2026\<lparr>day := 5\<rparr>"
    by (simp add: wed_2026_def next_day_def days_in_month_def)
  from parse_task_text_only_date_phrase [OF f ne l e] f e s d show ?thesis by simp
qed

section \<open>The pending task\<close>

text \<open>
  C3. Let a conversation have no pending task and let a task-like message without a date
  arrive, whose parsed title normalizes to \<open>X\<close>. The handler asks when to remind and arms
  the pending slot with title \<open>X\<close>. From that state, any next message that yields an
  instant creates a task with title \<open>X\<close> and that instant and clears the slot, after which
  messages are classified by category again (a summary request is answered as such); any
  next message that yields no instant only asks for the date again and leaves the state,
  and so the armed slot, as it was.
\<close>

theorem pending_round_trip:
  assumes idle: "get_pending_task st chat = None"
    and cls: "\<not> is_summary_request L (strip L raw1)"
      "\<not> template_request (lower L (strip L raw1))"
      "\<not> is_delete_request L (strip L raw1)"
      "\<not> is_complete_request L (strip L raw1)"
      "looks_like_task L (strip L raw1)"
    and nodate: "parse_task_text L (strip L raw1) now1 = Inr (t1, None)"
  shows "\<exists>st1 p.
      handle_message L st chat raw1 now1 clock1 = Inr (st1, AskWhen)
      \<and> get_pending_task st1 chat = Some p
      \<and> pending_title p = normalize_task_title L t1
      \<and> (\<forall>raw2 now2 clock2 t2 due.
            parse_task_text L (strip L raw2) now2 = Inr (t2, Some due) \<longrightarrow>
            (\<exists>st2 row.
               handle_message L st1 chat raw2 now2 clock2
                 = Inr (st2, Saved (normalize_task_title L t1) due)
               \<and> tasks st2 = tasks st1 @ [row]
               \<and> title row = normalize_task_title L t1
               \<and> due_at row = Some (to_utc_iso L due)
               \<and> get_pending_task st2 chat = None
               \<and> (\<forall>raw3 now3 clock3. is_summary_request L (strip L raw3) \<longrightarrow>
                     handle_message L st2 chat raw3 now3 clock3 = Inr (st2, Summary))))
      \<and> (\<forall>raw2 now2 clock2 t2.
            parse_task_text L (strip L raw2) now2 = Inr (t2, None) \<longrightarrow>
            handle_message L st1 chat raw2 now2 clock2 = Inr (st1, AskDateAgain)
            \<and> get_pending_task st1 chat = Some p)"
proof -
  define X where "X = normalize_task_title L t1"
  define st1 where "st1 = fst (add_pending_task st chat X (to_utc_iso L now1))"
  define p where "p = \<lparr>pending_id = next_rowid (pending_tasks_seq st) (map pending_id (pending_tasks st)),
        chat_id = chat, pending_title = X, pending_created_at = to_utc_iso L now1\<rparr>"
  have step1: "handle_message L st chat raw1 now1 clock1 = Inr (st1, AskWhen)"
    using handle_message_task_like [OF idle cls, of now1 clock1] nodate
    by (simp add: st1_def X_def)
  have rows1: "pending_tasks st1 = pending_tasks st @ [p]"
    by (simp add: st1_def p_def pending_tasks_add)
  from idle have none: "\<forall>q \<in> set (pending_tasks st). chat_id q \<noteq> chat"
    by (simp add: get_pending_task_None_iff)
  then have "filter (\<lambda>q. chat_id q = chat) (pending_tasks st) = []"
    by (simp add: filter_empty_conv)
  then have "filter (\<lambda>q. chat_id q = chat) (pending_tasks st1) = [p]"
    by (simp add: rows1 p_def)
  then have armed: "get_pending_task st1 chat = Some p"
    by (rule get_pending_task_single)
  have ptitle: "pending_title p = X" by (simp add: p_def)
  have answered: "\<exists>st2 row.
        handle_message L st1 chat raw2 now2 clock2 = Inr (st2, Saved X due)
        \<and> tasks st2 = tasks st1 @ [row] \<and> title row = X
        \<and> due_at row = Some (to_utc_iso L due)
        \<and> get_pending_task st2 chat = None
        \<and> (\<forall>raw3 now3 clock3. is_summary_request L (strip L raw3) \<longrightarrow>
              handle_message L st2 chat raw3 now3 clock3 = Inr (st2, Summary))"
    if d: "parse_task_text L (strip L raw2) now2 = Inr (t2, Some due)"
    for raw2 now2 clock2 t2 due
  proof -
    define st2 where "st2 = clear_pending_task
      (fst (create_task L st1 X (Some due) (asc ''telegram'') clock2)) (pending_id p)"
    define row where "row = \<lparr>task_id = next_rowid (tasks_seq st1) (map task_id (tasks st1)),
        title = X, due_at = Some (to_utc_iso L due), created_at = to_utc_iso L clock2,
        status = asc ''pending'', source = Some (asc ''telegram''), reminded_at = None,
        task_notes = None\<rparr>"
    have r: "handle_message L st1 chat raw2 now2 clock2 = Inr (st2, Saved X due)"
      using handle_message_pending [OF armed, of L raw2 now2 clock2] d
      by (simp add: st2_def ptitle)
    have t: "tasks st2 = tasks st1 @ [row]"
      by (simp add: st2_def row_def clear_pending_task_def create_task_def Let_def)
    have "pending_tasks st2 = filter (\<lambda>q. pending_id q \<noteq> pending_id p) (pending_tasks st)"
      by (simp add: st2_def pending_tasks_clear pending_tasks_create_task rows1)
    with none have "\<forall>q \<in> set (pending_tasks st2). chat_id q \<noteq> chat" by simp
    then have cleared: "get_pending_task st2 chat = None"
      by (simp add: get_pending_task_None_iff)
    have "\<forall>raw3 now3 clock3. is_summary_request L (strip L raw3) \<longrightarrow>
              handle_message L st2 chat raw3 now3 clock3 = Inr (st2, Summary)"
      using cleared by (simp add: handle_message_def Let_def)
    with r t cleared show ?thesis by (auto simp add: row_def)
  qed
  have unanswered: "handle_message L st1 chat raw2 now2 clock2 = Inr (st1, AskDateAgain)"
    if d: "parse_task_text L (strip L raw2) now2 = Inr (t2, None)"
    for raw2 now2 clock2 t2
    using handle_message_pending [OF armed, of L raw2 now2 clock2] d by simp
  from step1 armed ptitle answered unanswered show ?thesis
    unfolding X_def by blast
qed

text \<open>
  From the empty database the message \<^verbatim>\<open>sunum\<close> arms the slot with the title \<^verbatim>\<open>Sunum.\<close>;
  then \<^verbatim>\<open>yar\<dots>n\<close> saves the task for the next day and clears the slot, while \<^verbatim>\<open>toplanti\<close>
  only repeats the question.
\<close>

theorem pending_round_trip_witness:
  "get_pending_task empty_db chat42 = None
   \<and> looks_like_task (tr_lib finds_yarin) (strip (tr_lib finds_yarin) (asc ''sunum''))
   \<and> parse_task_text (tr_lib finds_yarin) (strip (tr_lib finds_yarin) (asc ''sunum'')) wed_2026
       = Inr (asc ''sunum'', None)
   \<and> normalize_task_title (tr_lib finds_yarin) (asc ''sunum'') = asc ''Sunum.''
   \<and> (\<exists>st1 p.
         handle_message (tr_lib finds_yarin) empty_db chat42 (asc ''sunum'') wed_2026 wed_2026
           = Inr (st1, AskWhen)
         \<and> get_pending_task st1 chat42 = Some p \<and> pending_title p = asc ''Sunum.''
         \<and> (\<exists>st2 row.
               handle_message (tr_lib finds_yarin) st1 chat42 (asc ''yar'' @ [dotless_i] @ asc ''n'')
                 wed_2026 wed_2026
                 = Inr (st2, Saved (asc ''Sunum.'') (wed_2026\<lparr>day := 5\<rparr>))
               \<and> tasks st2 = tasks st1 @ [row] \<and> title row = asc ''Sunum.''
               \<and> get_pending_task st2 chat42 = None)
         \<and> handle_message (tr_lib finds_yarin) st1 chat42 (asc ''toplanti'') wed_2026 wed_2026
              = Inr (st1, AskDateAgain))"
proof -
  let ?L = "tr_lib finds_yarin"
  note idle = empty_db_idle
  have c1: "\<not> is_summary_request ?L (strip ?L (asc ''sunum''))"
    by (simp add: is_summary_request_def lib_simps str_simps)
  have c2: "\<not> template_request (lower ?L (strip ?L (asc ''sunum'')))"
    by (simp add: template_request_def lib_simps str_simps)
  have c3: "\<not> is_delete_request ?L (strip ?L (asc ''sunum''))"
    by (simp add: is_delete_request_def delete_words_def lib_simps str_simps)
  have c4: "\<not> is_complete_request ?L (strip ?L (asc ''sunum''))"
    by (simp add: is_complete_request_def lib_simps str_simps)
  have c5: "looks_like_task ?L (strip ?L (asc ''sunum''))"
    by (simp add: looks_like_task_def TASK_KEYWORDS_def lib_simps str_simps)
  have nd: "parse_task_text ?L (strip ?L (asc ''sunum'')) wed_2026 = Inr (asc ''sunum'', None)"
    by (simp add: parse_task_text_def strip_filler_def filler_words_def lib_simps str_simps
        cong: let_weak_cong)
  have nt: "normalize_task_title ?L (asc ''sunum'') = asc ''Sunum.''"
    by (simp add: normalize_task_title_def lib_simps str_simps cong: let_weak_cong)
  have d2: "parse_task_text ?L (strip ?L (asc ''yar'' @ [dotless_i] @ asc ''n'')) wed_2026
      = Inr (asc ''yar'' @ [dotless_i] @ asc ''n'', Some (wed_2026\<lparr>day := 5\<rparr>))"
    by (simp add: parse_task_text_def strip_filler_def filler_words_def lib_simps str_simps
        wed_2026_def next_day_def days_in_month_def cong: let_weak_cong)
  have n2: "parse_task_text ?L (strip ?L (asc ''toplanti'')) wed_2026 = Inr (asc ''toplanti'', None)"
    by (simp add: parse_task_text_def strip_filler_def filler_words_def lib_simps str_simps
        cong: let_weak_cong)
  from pending_round_trip [OF idle c1 c2 c3 c4 c5 nd, of wed_2026]
  obtain st1 p where
    a: "handle_message ?L empty_db chat42 (asc ''sunum'') wed_2026 wed_2026 = Inr (st1, AskWhen)"
    and b: "get_pending_task st1 chat42 = Some p"
    and c: "pending_title p = normalize_task_title ?L (asc ''sunum'')"
    and d: "\<And>raw2 now2 clock2 t2 due.
            parse_task_text ?L (strip ?L raw2) now2 = Inr (t2, Some due) \<Longrightarrow>
            (\<exists>st2 row.
               handle_message ?L st1 chat42 raw2 now2 clock2
                 = Inr (st2, Saved (normalize_task_title ?L (asc ''sunum'')) due)
               \<and> tasks st2 = tasks st1 @ [row]
               \<and> title row = normalize_task_title ?L (asc ''sunum'')
               \<and> due_at row = Some (to_utc_iso ?L due)
               \<and> get_pending_task st2 chat42 = None
               \<and> (\<forall>raw3 now3 clock3. is_summary_request ?L (strip ?L raw3) \<longrightarrow>
                     handle_message ?L st2 chat42 raw3 now3 clock3 = Inr (st2, Summary)))"
    and e: "\<And>raw2 now2 clock2 t2.
            parse_task_text ?L (strip ?L raw2) now2 = Inr (t2, None) \<Longrightarrow>
            handle_message ?L st1 chat42 raw2 now2 clock2 = Inr (st1, AskDateAgain)
            \<and> get_pending_task st1 chat42 = Some p"
    by blast
  from d [OF d2, of wed_2026] e [OF n2, of wed_2026] a b c idle c5 nd nt
  show ?thesis
    unfolding nt by blast
qed






section \<open>Where the patterns and the fallback miss\<close>

text \<open>
  C1. The message \<^verbatim>\<open>sil #12\<close> is a delete request that names task 12, which exists. The
  pattern of \<open>re_search_id\<close> asks for a backslash followed by letters \<^verbatim>\<open>d\<close>, so it finds
  no id; the residual query is \<^verbatim>\<open>#12\<close>, no task title contains it, and the reply is
  \<open>NoMatch\<close> instead of the confirmation for task 12.
\<close>

theorem explicit_id_not_recognised:
  "get_pending_task two_tasks_db chat42 = None
   \<and> is_delete_request (tr_lib no_dates) (asc ''sil #12'')
   \<and> get_task two_tasks_db 12 = Some market_task
   \<and> send_delete_confirmation two_tasks_db 12 = Confirm Delete 12 (title market_task)
   \<and> re_search_id (asc ''sil #12'') = None
   \<and> extract_action_query (tr_lib no_dates) (asc ''sil #12'') delete_words = asc ''#12''
   \<and> find_task_candidates (tr_lib no_dates) two_tasks_db (asc ''#12'') 5 = []
   \<and> handle_message (tr_lib no_dates) two_tasks_db chat42 (asc ''sil #12'') wed_2026 wed_2026
        = Inr (two_tasks_db, NoMatch)"
proof -
  let ?L = "tr_lib no_dates"
  have a: "is_delete_request ?L (asc ''sil #12'')"
    by (simp add: is_delete_request_def delete_words_def lib_simps str_simps)
  have b: "get_task two_tasks_db 12 = Some market_task"
    by (simp add: db_simps)
  have c: "send_delete_confirmation two_tasks_db 12 = Confirm Delete 12 (title market_task)"
    by (simp add: send_delete_confirmation_def b)
  have d: "re_search_id (asc ''sil #12'') = None"
    by (simp add: str_simps)
  have e: "extract_action_query ?L (asc ''sil #12'') delete_words = asc ''#12''"
    by (simp add: extract_action_query_def delete_words_def lib_simps str_simps
        cong: let_weak_cong)
  have f: "find_task_candidates ?L two_tasks_db (asc ''#12'') 5 = []"
    by (simp add: bot_simps db_simps lib_simps str_simps cong: let_weak_cong)
  have g: "handle_message ?L two_tasks_db chat42 (asc ''sil #12'') wed_2026 wed_2026
        = Inr (two_tasks_db, NoMatch)"
    by (simp add: bot_simps db_simps lib_simps str_simps cong: let_weak_cong)
  from two_tasks_db_idle a b c d e f g show ?thesis by blast
qed

text \<open>
  C4. The title \<^verbatim>\<open>bana\<close> is not empty, so the placeholder of the first test is not used;
  removing the filler word leaves nothing and \<open>normalize_task_title\<close> returns the empty
  string. The message \<^verbatim>\<open>bana hat\<dots>rlat\<close> reaches this: its pending task is stored with an
  empty title.
\<close>

theorem normalize_task_title_empty:
  "strip (tr_lib no_dates) (asc ''bana'') = asc ''bana''
   \<and> normalize_task_title (tr_lib no_dates) (asc ''bana'') = []
   \<and> looks_like_task (tr_lib no_dates) (asc ''bana hat'' @ [dotless_i] @ asc ''rlat'')
   \<and> parse_task_text (tr_lib no_dates) (asc ''bana hat'' @ [dotless_i] @ asc ''rlat'') wed_2026
        = Inr (asc ''bana'', None)
   \<and> handle_message (tr_lib no_dates) empty_db chat42 (asc ''bana hat'' @ [dotless_i] @ asc ''rlat'')
        wed_2026 wed_2026
        = Inr (empty_db\<lparr>pending_tasks := [\<lparr>pending_id = 1, chat_id = chat42,
                   pending_title = [], pending_created_at = asc ''2026-11-04T06:41:07.000250+00:00''\<rparr>],
                 pending_tasks_seq := 1\<rparr>, AskWhen)"
proof -
  let ?L = "tr_lib no_dates"
  let ?m = "asc ''bana hat'' @ [dotless_i] @ asc ''rlat''"
  have a: "strip ?L (asc ''bana'') = asc ''bana''"
    by (simp add: lib_simps str_simps)
  have b: "normalize_task_title ?L (asc ''bana'') = []"
    by (simp add: normalize_task_title_def lib_simps str_simps cong: let_weak_cong)
  have s: "strip ?L ?m = ?m"
    by (simp add: lib_simps str_simps)
  have c1: "\<not> is_summary_request ?L (strip ?L ?m)"
    by (simp add: is_summary_request_def lib_simps str_simps)
  have c2: "\<not> template_request (lower ?L (strip ?L ?m))"
    by (simp add: template_request_def lib_simps str_simps)
  have c3: "\<not> is_delete_request ?L (strip ?L ?m)"
    by (simp add: is_delete_request_def delete_words_def lib_simps str_simps)
  have c4: "\<not> is_complete_request ?L (strip ?L ?m)"
    by (simp add: is_complete_request_def lib_simps str_simps)
  have c5: "looks_like_task ?L (strip ?L ?m)"
    by (simp add: looks_like_task_def TASK_KEYWORDS_def lib_simps str_simps)
  have p: "parse_task_text ?L ?m wed_2026 = Inr (asc ''bana'', None)"
    by (simp add: parse_task_text_def strip_filler_def filler_words_def lib_simps str_simps
        cong: let_weak_cong)
  have i: "to_utc_iso ?L wed_2026 = asc ''2026-11-04T06:41:07.000250+00:00''"
    by (simp add: to_utc_iso_def lib_simps str_simps wed_2026_def)
  have h: "handle_message ?L empty_db chat42 ?m wed_2026 wed_2026
        = Inr (empty_db\<lparr>pending_tasks := [\<lparr>pending_id = 1, chat_id = chat42,
                   pending_title = [], pending_created_at = asc ''2026-11-04T06:41:07.000250+00:00''\<rparr>],
                 pending_tasks_seq := 1\<rparr>, AskWhen)"
    unfolding handle_message_task_like [OF empty_db_idle c1 c2 c3 c4 c5] s p
    by (simp add: b i add_pending_task_def next_rowid_def empty_db_def)
  from a b c5 [unfolded s] p h show ?thesis by blast
qed

text \<open>
  C5. The separator class of \<open>tokenize\<close> keeps only the backslash, the letter \<^verbatim>\<open>w\<close> and
  twelve Turkish letters inside a token, so \<^verbatim>\<open>proposal thesis\<close> and \<^verbatim>\<open>thesis proposal\<close> have
  no tokens at all. The open task \<^verbatim>\<open>Thesis proposal\<close> shares both words with the query
  \<^verbatim>\<open>proposal thesis\<close>, yet scores 0 and is dropped; it is found only through the substring
  test, as for the query \<^verbatim>\<open>thesis\<close>.
\<close>

theorem shared_tokens_not_counted:
  "tokenize (tr_lib no_dates) (asc ''proposal thesis'') = {}
   \<and> tokenize (tr_lib no_dates) (lower (tr_lib no_dates) (title thesis_task)) = {}
   \<and> list_tasks two_tasks_db (asc ''pending'') 50 = [thesis_task, market_task]
   \<and> score_task (tr_lib no_dates) (asc ''proposal thesis'')
        (tokenize (tr_lib no_dates) (asc ''proposal thesis'')) thesis_task = 0
   \<and> find_task_candidates (tr_lib no_dates) two_tasks_db (asc ''proposal thesis'') 5 = []
   \<and> find_task_candidates (tr_lib no_dates) two_tasks_db (asc ''thesis'') 5 = [thesis_task]"
proof -
  let ?L = "tr_lib no_dates"
  have a: "tokenize ?L (asc ''proposal thesis'') = {}"
    by (simp add: tokenize_def lib_simps str_simps)
  have b: "tokenize ?L (lower ?L (title thesis_task)) = {}"
    by (simp add: tokenize_def thesis_task_def lib_simps str_simps)
  have c: "list_tasks two_tasks_db (asc ''pending'') 50 = [thesis_task, market_task]"
    by (simp add: db_simps str_simps)
  have d: "score_task ?L (asc ''proposal thesis'') (tokenize ?L (asc ''proposal thesis''))
      thesis_task = 0"
    by (simp add: score_task_def tokenize_def thesis_task_def lib_simps str_simps
        cong: let_weak_cong)
  have e: "find_task_candidates ?L two_tasks_db (asc ''proposal thesis'') 5 = []"
    by (simp add: bot_simps db_simps lib_simps str_simps cong: let_weak_cong)
  have f: "find_task_candidates ?L two_tasks_db (asc ''thesis'') 5 = [thesis_task]"
    by (simp add: bot_simps db_simps lib_simps str_simps cong: let_weak_cong)
  from a b c d e f show ?thesis by blast
qed

section \<open>Durations\<close>





























end
